theory Spec2Isabelle
  imports Complex_Main
begin

section \<open>Errors\<close>

text \<open>
  The Python exceptions that the file service and the library calls it makes can raise.
  \<open>Unmodelled\<close> marks the inputs on which a library routine is not modelled here.
\<close>

datatype error =
    FileNotFoundError
  | FileExistsError
  | NotADirectoryError
  | IsADirectoryError
  | SameFileError
  | ValueError
  | ZeroDivisionError
  | NotImplementedError
  | UnidentifiedImageError
  | OSError
  | ShutilError
  | Unmodelled

section \<open>Images\<close>

text \<open>
  The image library is an external collaborator. An image is modelled by the expression
  of library calls that built it, with its mode and size tracked as the library documents
  them: \<open>Decoded m w h k\<close> is an image handed in by the caller (mode, width, height and an
  opaque pixel payload), the other constructors are \<open>Image.new\<close>, \<open>convert\<close>,
  \<open>resize\<close> (always with the LANCZOS filter here), one band of \<open>split()\<close> and
  \<open>paste\<close> with an optional mask.
\<close>

datatype image =
    Decoded string nat nat nat
  | New string nat nat "nat \<times> nat \<times> nat"
  | Convert image string
  | Resize image nat nat
  | Band image nat
  | Paste image image "image option"

fun mode :: "image \<Rightarrow> string" where
  "mode (Decoded m w h k) = m"
| "mode (New m w h c) = m"
| "mode (Convert i m) = m"
| "mode (Resize i w h) = mode i"
| "mode (Band i n) = ''L''"
| "mode (Paste bg i k) = mode bg"

fun width :: "image \<Rightarrow> nat" where
  "width (Decoded m w h k) = w"
| "width (New m w h c) = w"
| "width (Convert i m) = width i"
| "width (Resize i w h) = w"
| "width (Band i n) = width i"
| "width (Paste bg i k) = width bg"

fun height :: "image \<Rightarrow> nat" where
  "height (Decoded m w h k) = h"
| "height (New m w h c) = h"
| "height (Convert i m) = height i"
| "height (Resize i w h) = h"
| "height (Band i n) = height i"
| "height (Paste bg i k) = height bg"

text \<open>The band count of a mode, and the modes that carry an alpha band or a palette.\<close>

definition nbands :: "string \<Rightarrow> nat" where
  "nbands m =
     (if m \<in> set [''RGB'', ''YCbCr'', ''LAB'', ''HSV''] then 3
      else if m \<in> set [''RGBA'', ''CMYK'', ''RGBX'', ''RGBa''] then 4
      else if m \<in> set [''LA'', ''PA'', ''La''] then 2
      else 1)"

definition has_alpha :: "string \<Rightarrow> bool" where
  "has_alpha m = (m \<in> set [''LA'', ''La'', ''PA'', ''RGBA'', ''RGBa''])"

definition has_palette :: "string \<Rightarrow> bool" where
  "has_palette m = (m \<in> set [''P'', ''PA''])"

text \<open>\<open>image.split()[-1]\<close>: the last band.\<close>

definition last_band :: "image \<Rightarrow> image" where
  "last_band i = Band i (nbands (mode i) - 1)"

text \<open>
  \<open>Image.resize\<close> refuses a target size with a component below 1
  (``height and width must be > 0'').
\<close>

definition pil_resize :: "image \<Rightarrow> int \<Rightarrow> int \<Rightarrow> error + image" where
  "pil_resize i w h =
     (if w < 1 \<or> h < 1 then Inl ValueError else Inr (Resize i (nat w) (nat h)))"

subsection \<open>convert_image_to_rgb\<close>

text \<open>
  \<open>Image.convert\<close> returns a copy when the image already has the requested mode.
  Otherwise it looks the pair of modes up in the library's table of conversions and raises
  \<open>ValueError\<close> when the table has none (there is none from \<open>La\<close> to \<open>RGB\<close>, for
  example). The table belongs to the library, not to this repository, so it is a
  parameter: \<open>conv src dst\<close> says whether the library converts mode \<open>src\<close> to mode
  \<open>dst\<close>.
\<close>

definition pil_convert :: "(string \<Rightarrow> string \<Rightarrow> bool) \<Rightarrow> image \<Rightarrow> string \<Rightarrow> error + image" where
  "pil_convert conv i m =
     (if mode i = m then Inr i
      else if conv (mode i) m then Inr (Convert i m)
      else Inl ValueError)"

definition convert_image_to_rgb :: "(string \<Rightarrow> string \<Rightarrow> bool) \<Rightarrow> image \<Rightarrow> error + image" where
  "convert_image_to_rgb conv img =
     (if mode img \<in> set [''RGBA'', ''LA'', ''P''] then
        (let background = New ''RGB'' (width img) (height img) (255, 255, 255)
         in case (if mode img = ''P'' then pil_convert conv img ''RGBA'' else Inr img) of
              Inl e \<Rightarrow> Inl e
            | Inr img' \<Rightarrow>
                if mode img' \<in> set [''RGBA'', ''LA'']
                then Inr (Paste background img' (Some (last_band img')))
                else Inr (Paste background img' None))
      else if mode img \<noteq> ''RGB'' then pil_convert conv img ''RGB''
      else Inr img)"

subsection \<open>Binary floating point\<close>

text \<open>
  Python's \<open>int / int\<close> and \<open>int * float\<close> give the binary64 number nearest to the
  exact result (ties to even). A positive binary64 number is a pair \<open>(m, e)\<close> of a
  53-bit significand and an exponent, standing for \<open>m * 2 ^ e\<close>; the sizes that occur
  here are far inside the normal range, so overflow and subnormals are left out.
\<close>

type_synonym double = "nat \<times> int"

function scale_up :: "nat \<Rightarrow> nat \<Rightarrow> int \<Rightarrow> nat \<times> int" where
  "scale_up n d e =
     (if n = 0 \<or> d = 0 \<or> 2 ^ 52 * d \<le> n then (n, e) else scale_up (2 * n) d (e - 1))"
  by pat_completeness auto
termination
  by (relation "measure (\<lambda>(n, d, e). 2 ^ 52 * d - n)") auto

function scale_down :: "nat \<Rightarrow> nat \<Rightarrow> int \<Rightarrow> nat \<times> int" where
  "scale_down n d e =
     (if d = 0 \<or> n < 2 ^ 53 * d then (d, e) else scale_down n (2 * d) (e + 1))"
  by pat_completeness auto
termination
  by (relation "measure (\<lambda>(n, d, e). Suc n - 2 ^ 53 * d)") auto

definition round_half_even :: "nat \<Rightarrow> nat \<Rightarrow> nat" where
  "round_half_even n d =
     (let q = n div d; r = n mod d
      in if d < 2 * r \<or> (2 * r = d \<and> odd q) then q + 1 else q)"

text \<open>The binary64 number nearest to \<open>n / d\<close>.\<close>

definition to_double :: "nat \<Rightarrow> nat \<Rightarrow> double" where
  "to_double n d =
     (if n = 0 then (0, 0)
      else (let (n', e1) = scale_up n d 0;
                (d', e2) = scale_down n' d e1
            in (round_half_even n' d', e2)))"

text \<open>\<open>h * x\<close> for an integer \<open>h\<close> and a double \<open>x\<close>: the exact product, rounded.\<close>

definition mul_double :: "nat \<Rightarrow> double \<Rightarrow> double" where
  "mul_double h x =
     (case x of (m, e) \<Rightarrow>
        if 0 \<le> e then to_double (h * m * 2 ^ nat e) 1
        else to_double (h * m) (2 ^ nat (- e)))"

text \<open>\<open>int(x)\<close>: truncation toward zero.\<close>

definition trunc_double :: "double \<Rightarrow> int" where
  "trunc_double x =
     (case x of (m, e) \<Rightarrow>
        if 0 \<le> e then int (m * 2 ^ nat e) else int (m div 2 ^ nat (- e)))"

text \<open>The value of a double as a rational number.\<close>

definition dval :: "double \<Rightarrow> rat" where
  "dval x =
     (case x of (m, e) \<Rightarrow>
        if 0 \<le> e then of_nat m * 2 ^ nat e else of_nat m / 2 ^ nat (- e))"

subsection \<open>resize_image_for_thumbnail\<close>

text \<open>
  The width and height of an image are never negative; \<open>max_width\<close> is any integer.
  Dividing by a zero width raises; a non-positive \<open>max_width\<close> reaches \<open>resize\<close> with a
  target width below 1, which the library refuses whatever the height.
\<close>

definition new_height :: "image \<Rightarrow> nat \<Rightarrow> int" where
  "new_height img max_width =
     trunc_double (mul_double (height img) (to_double max_width (width img)))"

definition resize_image_for_thumbnail :: "image \<Rightarrow> int \<Rightarrow> error + image" where
  "resize_image_for_thumbnail img max_width =
     (if max_width < int (width img) then
        (if width img = 0 then Inl ZeroDivisionError
         else if max_width < 1 then Inl ValueError
         else pil_resize img max_width (new_height img (nat max_width)))
      else Inr img)"

section \<open>Strings\<close>

text \<open>
  \<open>str.lower()\<close> on the ASCII letters (other characters are left as they are),
  \<open>s.replace('\\', '/')\<close>, and the decimal text of an integer as an f-string prints it.
\<close>

definition lower_char :: "char \<Rightarrow> char" where
  "lower_char c =
     (let n = (of_char c :: nat) in if 65 \<le> n \<and> n \<le> 90 then char_of (n + 32) else c)"

definition lower :: "string \<Rightarrow> string" where
  "lower s = map lower_char s"

definition replace_backslash :: "string \<Rightarrow> string" where
  "replace_backslash s = map (\<lambda>c. if c = CHR 0x5C then CHR ''/'' else c) s"

fun digits :: "nat \<Rightarrow> string" where
  "digits n =
     (if n < 10 then [char_of (48 + n)] else digits (n div 10) @ [char_of (48 + n mod 10)])"

declare digits.simps [simp del]

definition str_int :: "int \<Rightarrow> string" where
  "str_int i = (if i < 0 then CHR ''-'' # digits (nat (- i)) else digits (nat i))"

fun split_on :: "char \<Rightarrow> string \<Rightarrow> string list" where
  "split_on c [] = [[]]"
| "split_on c (x # xs) =
     (if x = c then [] # split_on c xs
      else (case split_on c xs of [] \<Rightarrow> [[x]] | y # ys \<Rightarrow> (x # y) # ys))"

fun join_with :: "string \<Rightarrow> string list \<Rightarrow> string" where
  "join_with sep [] = []"
| "join_with sep [x] = x"
| "join_with sep (x # y # ys) = x @ sep @ join_with sep (y # ys)"

text \<open>The index of the last dot of a name (\<open>name.rfind('.')\<close>), if there is one.\<close>

definition rfind_dot :: "string \<Rightarrow> nat option" where
  "rfind_dot s =
     (if CHR ''.'' \<in> set s
      then Some (length s - 1 - length (takeWhile (\<lambda>c. c \<noteq> CHR ''.'') (rev s)))
      else None)"

section \<open>Pure paths\<close>

text \<open>
  A \<open>pathlib\<close> path on POSIX: its root (empty for a relative path, \<open>/\<close>, or \<open>//\<close> for
  exactly two leading slashes) and its parts. Parsing drops empty parts and \<open>.\<close>, and keeps
  \<open>..\<close>; all the operations below are lexical.
\<close>

type_synonym ppath = "string \<times> string list"

definition parse_path :: "string \<Rightarrow> ppath" where
  "parse_path s =
     ((if take 2 s = ''//'' \<and> take 3 s \<noteq> ''///'' then ''//''
       else if take 1 s = ''/'' then ''/'' else []),
      filter (\<lambda>p. p \<noteq> [] \<and> p \<noteq> ''.'') (split_on CHR ''/'' s))"

text \<open>\<open>p / s\<close>: an absolute right operand replaces the left one.\<close>

definition joinpath :: "ppath \<Rightarrow> string \<Rightarrow> ppath" where
  "joinpath p s =
     (case parse_path s of (rt, ps) \<Rightarrow> if rt \<noteq> [] then (rt, ps) else (fst p, snd p @ ps))"

definition as_posix :: "ppath \<Rightarrow> string" where
  "as_posix p =
     (case p of (rt, ps) \<Rightarrow> if rt = [] \<and> ps = [] then ''.'' else rt @ join_with ''/'' ps)"

definition relative_to :: "ppath \<Rightarrow> ppath \<Rightarrow> error + ppath" where
  "relative_to p other =
     (if fst p = fst other \<and> take (length (snd other)) (snd p) = snd other
      then Inr ([], drop (length (snd other)) (snd p))
      else Inl ValueError)"

definition path_name :: "ppath \<Rightarrow> string" where
  "path_name p = (if snd p = [] then [] else last (snd p))"

definition path_parent :: "ppath \<Rightarrow> ppath" where
  "path_parent p = (fst p, butlast (snd p))"

definition stem_of :: "string \<Rightarrow> string" where
  "stem_of nm =
     (case rfind_dot nm of
        Some i \<Rightarrow> if 0 < i \<and> i + 1 < length nm then take i nm else nm
      | None \<Rightarrow> nm)"

definition suffix_of :: "string \<Rightarrow> string" where
  "suffix_of nm =
     (case rfind_dot nm of
        Some i \<Rightarrow> if 0 < i \<and> i + 1 < length nm then drop i nm else []
      | None \<Rightarrow> [])"

definition path_stem :: "ppath \<Rightarrow> string" where
  "path_stem p = stem_of (path_name p)"

definition path_suffix :: "ppath \<Rightarrow> string" where
  "path_suffix p = suffix_of (path_name p)"

text \<open>
  The extension \<open>os.path.splitext\<close> finds in a file name: from the last dot on, unless
  only dots come before it.
\<close>

definition splitext_ext :: "string \<Rightarrow> string" where
  "splitext_ext nm =
     (case rfind_dot nm of
        Some i \<Rightarrow> if (\<exists>c \<in> set (take i nm). c \<noteq> CHR ''.'') then drop i nm else []
      | None \<Rightarrow> [])"

text \<open>
  \<open>secure_filename\<close> of the web framework, on ASCII input: path separators become
  blanks, runs of blanks become one underscore, every character outside
  \<open>A-Za-z0-9_.-\<close> is dropped, and dots and underscores are stripped from both ends.
  (Characters outside ASCII are dropped as well; the library decomposes them first,
  which can leave an ASCII base letter behind.)
\<close>

definition is_space :: "char \<Rightarrow> bool" where
  "is_space c = ((of_char c :: nat) \<in> {9, 10, 11, 12, 13, 28, 29, 30, 31, 32})"

definition safe_char :: "char \<Rightarrow> bool" where
  "safe_char c =
     (let n = (of_char c :: nat)
      in (48 \<le> n \<and> n \<le> 57) \<or> (65 \<le> n \<and> n \<le> 90) \<or> (97 \<le> n \<and> n \<le> 122) \<or>
         n = 95 \<or> n = 46 \<or> n = 45)"

fun split_blank :: "string \<Rightarrow> string list" where
  "split_blank [] = [[]]"
| "split_blank (x # xs) =
     (if is_space x then [] # split_blank xs
      else (case split_blank xs of [] \<Rightarrow> [[x]] | y # ys \<Rightarrow> (x # y) # ys))"

definition strip_dots :: "string \<Rightarrow> string" where
  "strip_dots s =
     (let edge = (\<lambda>c. c = CHR ''.'' \<or> c = CHR ''_'')
      in rev (dropWhile edge (rev (dropWhile edge s))))"

definition secure_filename :: "string \<Rightarrow> string" where
  "secure_filename filename =
     (let ascii = filter (\<lambda>c. (of_char c :: nat) < 128) filename;
          blanked = map (\<lambda>c. if c = CHR ''/'' then CHR '' '' else c) ascii;
          joined = join_with ''_'' (filter (\<lambda>w. w \<noteq> []) (split_blank blanked))
      in strip_dots (filter safe_char joined))"

section \<open>The file system\<close>

text \<open>
  A POSIX file tree without symbolic links, hard links or permissions: an association
  list from canonical locations (the names from the root down, without \<open>.\<close> and
  \<open>..\<close>) to nodes. A file holds an image written by the codec (format, quality, image)
  or other bytes.
\<close>

datatype content = Encoded string "int option" image | Bytes nat

datatype node = File content | Dir

type_synonym fs = "(string list \<times> node) list"

datatype 'a result = Ok 'a fs | Raise error fs

text \<open>
  What the service is configured with: the upload folder, the working directory of the
  process (where relative paths start), and the codec's registry, which is not part of
  this repository: the format it picks for a file extension, whether it can write a
  given image in a given format, and which mode conversions it has.
\<close>

record config =
  upload_folder :: ppath
  cwd :: "string list"
  ext_format :: "string \<Rightarrow> string option"
  can_write :: "string \<Rightarrow> image \<Rightarrow> bool"
  can_convert :: "string \<Rightarrow> string \<Rightarrow> bool"

definition fs_put :: "fs \<Rightarrow> string list \<Rightarrow> node \<Rightarrow> fs" where
  "fs_put fs q n = (q, n) # filter (\<lambda>kv. fst kv \<noteq> q) fs"

definition fs_del :: "fs \<Rightarrow> string list \<Rightarrow> fs" where
  "fs_del fs q = filter (\<lambda>kv. fst kv \<noteq> q) fs"

text \<open>
  Path resolution: every part is looked up in a directory that must exist; \<open>..\<close> goes
  to the parent (the root is its own parent). The last part itself need not exist. A
  path with a NUL byte is refused by Python before the file system sees it
  (\<open>ValueError\<close>, which \<open>exists\<close>, \<open>is_file\<close> and \<open>is_dir\<close> answer with
  \<open>False\<close>). The file system's limits on the length of a name and of a path are left
  out: names are taken to fit.
\<close>

definition step :: "string list \<Rightarrow> string \<Rightarrow> string list" where
  "step cur c = (if c = ''..'' then butlast cur else cur @ [c])"

fun walk :: "fs \<Rightarrow> string list \<Rightarrow> string list \<Rightarrow> error + string list" where
  "walk fs cur [] = Inr cur"
| "walk fs cur (c # cs) =
     (case map_of fs cur of
        Some Dir \<Rightarrow> walk fs (step cur c) cs
      | Some (File x) \<Rightarrow> Inl NotADirectoryError
      | None \<Rightarrow> Inl FileNotFoundError)"

definition locate :: "config \<Rightarrow> fs \<Rightarrow> ppath \<Rightarrow> error + string list" where
  "locate cfg fs p =
     (if \<exists>c \<in> set (snd p). CHR 0x00 \<in> set c then Inl ValueError
      else walk fs (if fst p = [] then cwd cfg else []) (snd p))"

definition node_at :: "config \<Rightarrow> fs \<Rightarrow> ppath \<Rightarrow> node option" where
  "node_at cfg fs p = (case locate cfg fs p of Inr q \<Rightarrow> map_of fs q | Inl e \<Rightarrow> None)"

definition path_exists :: "config \<Rightarrow> fs \<Rightarrow> ppath \<Rightarrow> bool" where
  "path_exists cfg fs p = (node_at cfg fs p \<noteq> None)"

definition is_file :: "config \<Rightarrow> fs \<Rightarrow> ppath \<Rightarrow> bool" where
  "is_file cfg fs p = (case node_at cfg fs p of Some (File x) \<Rightarrow> True | _ \<Rightarrow> False)"

definition is_dir :: "config \<Rightarrow> fs \<Rightarrow> ppath \<Rightarrow> bool" where
  "is_dir cfg fs p = (node_at cfg fs p = Some Dir)"

definition os_mkdir :: "config \<Rightarrow> fs \<Rightarrow> ppath \<Rightarrow> error + fs" where
  "os_mkdir cfg fs p =
     (case locate cfg fs p of
        Inl e \<Rightarrow> Inl e
      | Inr q \<Rightarrow> if map_of fs q \<noteq> None then Inl FileExistsError else Inr (fs_put fs q Dir))"

text \<open>
  \<open>Path.mkdir(exist_ok=True, parents=True)\<close>: on a missing parent the parents are made
  first and the directory is tried once more; any other failure is forgiven when the
  path is a directory already.
\<close>

function mkdir_p :: "config \<Rightarrow> fs \<Rightarrow> ppath \<Rightarrow> unit result" where
  "mkdir_p cfg fs p =
     (case os_mkdir cfg fs p of
        Inr fs' \<Rightarrow> Ok () fs'
      | Inl e \<Rightarrow>
          if e = FileNotFoundError then
            (if snd p = [] then Raise e fs
             else (case mkdir_p cfg fs (fst p, butlast (snd p)) of
                     Raise e' fs' \<Rightarrow> Raise e' fs'
                   | Ok u fs' \<Rightarrow>
                       (case os_mkdir cfg fs' p of
                          Inr fs'' \<Rightarrow> Ok () fs''
                        | Inl e'' \<Rightarrow>
                            if e'' \<noteq> FileNotFoundError \<and> is_dir cfg fs' p then Ok () fs'
                            else Raise e'' fs')))
          else if is_dir cfg fs p then Ok () fs
          else Raise e fs)"
  by pat_completeness auto
termination
  by (relation "measure (\<lambda>(cfg, fs, p). length (snd p))") auto

declare mkdir_p.simps [simp del]

definition os_unlink :: "config \<Rightarrow> fs \<Rightarrow> ppath \<Rightarrow> error + fs" where
  "os_unlink cfg fs p =
     (case locate cfg fs p of
        Inl e \<Rightarrow> Inl e
      | Inr q \<Rightarrow>
          (case map_of fs q of
             None \<Rightarrow> Inl FileNotFoundError
           | Some Dir \<Rightarrow> Inl IsADirectoryError
           | Some (File x) \<Rightarrow> Inr (fs_del fs q)))"

text \<open>Opening a file for writing and writing \<open>c\<close> to it.\<close>

definition write_file :: "config \<Rightarrow> fs \<Rightarrow> ppath \<Rightarrow> content \<Rightarrow> error + fs" where
  "write_file cfg fs p c =
     (case locate cfg fs p of
        Inl e \<Rightarrow> Inl e
      | Inr q \<Rightarrow>
          (case map_of fs q of
             Some Dir \<Rightarrow> Inl IsADirectoryError
           | _ \<Rightarrow> Inr (fs_put fs q (File c))))"

definition read_file :: "config \<Rightarrow> fs \<Rightarrow> ppath \<Rightarrow> error + content" where
  "read_file cfg fs p =
     (case locate cfg fs p of
        Inl e \<Rightarrow> Inl e
      | Inr q \<Rightarrow>
          (case map_of fs q of
             None \<Rightarrow> Inl FileNotFoundError
           | Some Dir \<Rightarrow> Inl IsADirectoryError
           | Some (File x) \<Rightarrow> Inr x))"

text \<open>
  \<open>image.save(path)\<close> and \<open>image.save(path, format, quality=q)\<close>: the format is the one
  given or the one registered for the extension; the file is opened, then encoded. When
  encoding fails the library removes the file if it had just created it, and an older
  file is left truncated.
\<close>

definition pil_save ::
  "config \<Rightarrow> fs \<Rightarrow> image \<Rightarrow> ppath \<Rightarrow> string option \<Rightarrow> int option \<Rightarrow> unit result" where
  "pil_save cfg fs img p fmt quality =
     (case (case fmt of
              Some f \<Rightarrow> Some f
            | None \<Rightarrow> ext_format cfg (lower (splitext_ext (path_name p)))) of
        None \<Rightarrow> Raise ValueError fs
      | Some f \<Rightarrow>
          (case write_file cfg fs p (Encoded f quality img) of
             Inl e \<Rightarrow> Raise e fs
           | Inr fs' \<Rightarrow>
               if can_write cfg f img then Ok () fs'
               else if path_exists cfg fs p
                    then (case write_file cfg fs p (Bytes 0) of
                            Inl e \<Rightarrow> Raise e fs | Inr fs'' \<Rightarrow> Raise OSError fs'')
                    else Raise OSError fs))"

text \<open>\<open>Image.open(path)\<close>: the image a file written by the codec holds.\<close>

definition pil_open :: "config \<Rightarrow> fs \<Rightarrow> ppath \<Rightarrow> error + image" where
  "pil_open cfg fs p =
     (case read_file cfg fs p of
        Inl e \<Rightarrow> Inl e
      | Inr (Encoded f q img) \<Rightarrow> Inr img
      | Inr (Bytes n) \<Rightarrow> Inl UnidentifiedImageError)"

text \<open>Shell-style matching of one name: \<open>*\<close> is any run of characters, \<open>?\<close> any one.\<close>

fun fnmatch :: "string \<Rightarrow> string \<Rightarrow> bool" where
  "fnmatch [] [] = True"
| "fnmatch [] (x # xs) = False"
| "fnmatch (c # p) [] = (c = CHR ''*'' \<and> fnmatch p [])"
| "fnmatch (c # p) (x # xs) =
     (if c = CHR ''*'' then fnmatch p (x # xs) \<or> fnmatch (c # p) xs
      else (c = CHR ''?'' \<or> c = x) \<and> fnmatch p xs)"

text \<open>
  \<open>directory.glob(pattern)\<close> for a pattern of one part without bracket expressions:
  the entries of the directory whose names match. A pattern that starts with a slash is
  refused by the library; patterns of several parts, bracket expressions and two stars
  in a row are outside this model.
\<close>

fun double_star :: "string \<Rightarrow> bool" where
  "double_star (a # b # s) = ((a = CHR ''*'' \<and> b = CHR ''*'') \<or> double_star (b # s))"
| "double_star s = False"

definition children :: "fs \<Rightarrow> string list \<Rightarrow> string list list" where
  "children fs d = filter (\<lambda>q. q \<noteq> [] \<and> butlast q = d) (map fst fs)"

definition glob :: "config \<Rightarrow> fs \<Rightarrow> ppath \<Rightarrow> string \<Rightarrow> error + string list list" where
  "glob cfg fs dir pattern =
     (if pattern = [] then Inl ValueError
      else if hd pattern = CHR ''/'' then Inl NotImplementedError
      else if CHR ''/'' \<in> set pattern \<or> CHR ''['' \<in> set pattern \<or> double_star pattern
      then Inl Unmodelled
      else (case locate cfg fs dir of
              Inl e \<Rightarrow> Inr []
            | Inr d \<Rightarrow>
                if map_of fs d = Some Dir
                then Inr (filter (\<lambda>q. fnmatch pattern (last q)) (children fs d))
                else Inr []))"

text \<open>\<open>for file in entries: if file.is_file(): file.unlink()\<close>, on located entries.\<close>

fun unlink_files :: "fs \<Rightarrow> string list list \<Rightarrow> fs" where
  "unlink_files fs [] = fs"
| "unlink_files fs (q # qs) =
     (case map_of fs q of
        Some (File x) \<Rightarrow> unlink_files (fs_del fs q) qs
      | _ \<Rightarrow> unlink_files fs qs)"

text \<open>
  \<open>shutil.copy2\<close>: into the directory when the destination is one; the same file
  is refused; the source is opened before the destination.
\<close>

definition samefile :: "config \<Rightarrow> fs \<Rightarrow> ppath \<Rightarrow> ppath \<Rightarrow> bool" where
  "samefile cfg fs a b =
     (case locate cfg fs a of
        Inl e \<Rightarrow> False
      | Inr x \<Rightarrow>
          (case locate cfg fs b of
             Inl e \<Rightarrow> False
           | Inr y \<Rightarrow> x = y \<and> map_of fs x \<noteq> None))"

definition shutil_copy2 :: "config \<Rightarrow> fs \<Rightarrow> ppath \<Rightarrow> ppath \<Rightarrow> unit result" where
  "shutil_copy2 cfg fs src dst =
     (let dst' = (if is_dir cfg fs dst then joinpath dst (path_name src) else dst)
      in if samefile cfg fs src dst' then Raise SameFileError fs
         else (case read_file cfg fs src of
                 Inl e \<Rightarrow> Raise e fs
               | Inr c \<Rightarrow>
                   (case write_file cfg fs dst' c of
                      Inl e \<Rightarrow> Raise e fs
                    | Inr fs' \<Rightarrow> Ok () fs')))"

text \<open>
  \<open>os.rename\<close>: a file replaces a file, a directory moves with everything below it and
  replaces only an empty directory, and a directory cannot move below itself.
\<close>

definition is_prefix :: "string list \<Rightarrow> string list \<Rightarrow> bool" where
  "is_prefix a b = (take (length a) b = a)"

definition move_tree :: "fs \<Rightarrow> string list \<Rightarrow> string list \<Rightarrow> fs" where
  "move_tree fs s d =
     map (\<lambda>kv. if is_prefix s (fst kv) then (d @ drop (length s) (fst kv), snd kv) else kv) fs"

definition os_rename :: "config \<Rightarrow> fs \<Rightarrow> ppath \<Rightarrow> ppath \<Rightarrow> error + fs" where
  "os_rename cfg fs src dst =
     (case locate cfg fs src of
        Inl e \<Rightarrow> Inl e
      | Inr s \<Rightarrow>
          (case map_of fs s of
             None \<Rightarrow> Inl FileNotFoundError
           | Some n \<Rightarrow>
               (case locate cfg fs dst of
                  Inl e \<Rightarrow> Inl e
                | Inr d \<Rightarrow>
                    if s = d then Inr fs
                    else (case n of
                            File c \<Rightarrow>
                              if map_of fs d = Some Dir then Inl IsADirectoryError
                              else Inr (fs_put (fs_del fs s) d (File c))
                          | Dir \<Rightarrow>
                              if is_prefix s d then Inl OSError
                              else (case map_of fs d of
                                      Some (File c) \<Rightarrow> Inl NotADirectoryError
                                    | Some Dir \<Rightarrow>
                                        if children fs d \<noteq> [] then Inl OSError
                                        else Inr (move_tree (fs_del fs d) s d)
                                    | None \<Rightarrow> Inr (move_tree fs s d))))))"

text \<open>
  \<open>shutil.move\<close>: into the directory when the destination is one (refusing a name taken
  there), by renaming; a file that cannot be renamed is copied and then removed. A
  directory that cannot be renamed is copied as a tree by the library, which is outside
  this model.
\<close>

definition shutil_move :: "config \<Rightarrow> fs \<Rightarrow> ppath \<Rightarrow> ppath \<Rightarrow> unit result" where
  "shutil_move cfg fs src dst =
     (if is_dir cfg fs dst \<and> samefile cfg fs src dst then
        (case os_rename cfg fs src dst of Inl e \<Rightarrow> Raise e fs | Inr fs' \<Rightarrow> Ok () fs')
      else
        (let real_dst = (if is_dir cfg fs dst then joinpath dst (path_name src) else dst)
         in if is_dir cfg fs dst \<and> path_exists cfg fs real_dst then Raise ShutilError fs
            else (case os_rename cfg fs src real_dst of
                    Inr fs' \<Rightarrow> Ok () fs'
                  | Inl e \<Rightarrow>
                      if is_dir cfg fs src then Raise Unmodelled fs
                      else (case shutil_copy2 cfg fs src real_dst of
                              Raise e' fs' \<Rightarrow> Raise e' fs'
                            | Ok u fs' \<Rightarrow>
                                (case os_unlink cfg fs' src of
                                   Inl e'' \<Rightarrow> Raise e'' fs'
                                 | Inr fs'' \<Rightarrow> Ok () fs'')))))"

section \<open>The file service\<close>

text \<open>
  Every operation takes the configuration and the file system, and returns its value
  with the file system it leaves, or the exception it raises with the file system at
  that point. Operations that read the clock take the time stamp
  \<open>int(time.time() * 1000)\<close> as \<open>now\<close>.
\<close>

definition get_project_dir :: "config \<Rightarrow> fs \<Rightarrow> string \<Rightarrow> ppath result" where
  "get_project_dir cfg fs project_id =
     (let project_dir = joinpath (upload_folder cfg) project_id
      in case mkdir_p cfg fs project_dir of
           Raise e fs' \<Rightarrow> Raise e fs'
         | Ok u fs' \<Rightarrow> Ok project_dir fs')"

definition project_subdir :: "config \<Rightarrow> fs \<Rightarrow> string \<Rightarrow> string \<Rightarrow> ppath result" where
  "project_subdir cfg fs project_id sub =
     (case get_project_dir cfg fs project_id of
        Raise e fs' \<Rightarrow> Raise e fs'
      | Ok project_dir fs' \<Rightarrow>
          (let d = joinpath project_dir sub
           in case mkdir_p cfg fs' d of
                Raise e fs'' \<Rightarrow> Raise e fs''
              | Ok u fs'' \<Rightarrow> Ok d fs''))"

definition get_template_dir :: "config \<Rightarrow> fs \<Rightarrow> string \<Rightarrow> ppath result" where
  "get_template_dir cfg fs project_id = project_subdir cfg fs project_id ''template''"

definition get_pages_dir :: "config \<Rightarrow> fs \<Rightarrow> string \<Rightarrow> ppath result" where
  "get_pages_dir cfg fs project_id = project_subdir cfg fs project_id ''pages''"

definition get_materials_dir :: "config \<Rightarrow> fs \<Rightarrow> string \<Rightarrow> ppath result" where
  "get_materials_dir cfg fs project_id = project_subdir cfg fs project_id ''materials''"

definition get_global_materials_dir :: "config \<Rightarrow> fs \<Rightarrow> ppath result" where
  "get_global_materials_dir cfg fs =
     (let materials_dir = joinpath (upload_folder cfg) ''materials''
      in case mkdir_p cfg fs materials_dir of
           Raise e fs' \<Rightarrow> Raise e fs'
         | Ok u fs' \<Rightarrow> Ok materials_dir fs')"

definition get_materials_target_dir :: "config \<Rightarrow> fs \<Rightarrow> string option \<Rightarrow> ppath result" where
  "get_materials_target_dir cfg fs target_project_id =
     (case target_project_id of
        None \<Rightarrow> get_global_materials_dir cfg fs
      | Some project_id \<Rightarrow> get_materials_dir cfg fs project_id)"

definition get_user_templates_dir :: "config \<Rightarrow> fs \<Rightarrow> ppath result" where
  "get_user_templates_dir cfg fs =
     (let templates_dir = joinpath (upload_folder cfg) ''user-templates''
      in case mkdir_p cfg fs templates_dir of
           Raise e fs' \<Rightarrow> Raise e fs'
         | Ok u fs' \<Rightarrow> Ok templates_dir fs')"

definition generate_material_filename :: "int \<Rightarrow> string \<Rightarrow> string" where
  "generate_material_filename now original_filename =
     (let safe_name = (if secure_filename original_filename = [] then ''material''
                       else secure_filename original_filename);
          base_name = path_stem (parse_path safe_name);
          ext = (if lower (path_suffix (parse_path safe_name)) = [] then ''.png''
                 else lower (path_suffix (parse_path safe_name)))
      in base_name @ ''_'' @ str_int now @ ext)"

text \<open>\<open>filepath.relative_to(self.upload_folder).as_posix()\<close>\<close>

definition relative_posix :: "config \<Rightarrow> ppath \<Rightarrow> error + string" where
  "relative_posix cfg filepath =
     (case relative_to filepath (upload_folder cfg) of
        Inl e \<Rightarrow> Inl e
      | Inr r \<Rightarrow> Inr (as_posix r))"

definition save_generated_image ::
  "config \<Rightarrow> int \<Rightarrow> fs \<Rightarrow> image \<Rightarrow> string \<Rightarrow> string \<Rightarrow> string \<Rightarrow> int option \<Rightarrow> string result"
  where
  "save_generated_image cfg now fs img project_id page_id image_format version_number =
     (case get_pages_dir cfg fs project_id of
        Raise e fs1 \<Rightarrow> Raise e fs1
      | Ok pages_dir fs1 \<Rightarrow>
          (let ext = lower image_format;
               filename = (case version_number of
                             Some v \<Rightarrow> page_id @ ''_v'' @ str_int v @ ''.'' @ ext
                           | None \<Rightarrow> page_id @ ''_'' @ str_int now @ ''.'' @ ext);
               filepath = joinpath pages_dir filename
           in case pil_save cfg fs1 img filepath None None of
                Raise e fs2 \<Rightarrow> Raise e fs2
              | Ok u fs2 \<Rightarrow>
                  (case relative_posix cfg filepath of
                     Inl e \<Rightarrow> Raise e fs2
                   | Inr r \<Rightarrow> Ok r fs2)))"

definition get_cached_image_path :: "string \<Rightarrow> string \<Rightarrow> int \<Rightarrow> string" where
  "get_cached_image_path project_id page_id version_number =
     (let filename = page_id @ ''_v'' @ str_int version_number @ ''_thumb.jpg''
      in project_id @ ''/pages/'' @ filename)"

definition save_cached_image ::
  "config \<Rightarrow> fs \<Rightarrow> image \<Rightarrow> string \<Rightarrow> string \<Rightarrow> int \<Rightarrow> int \<Rightarrow> int \<Rightarrow> string result" where
  "save_cached_image cfg fs img project_id page_id version_number quality max_width =
     (case get_pages_dir cfg fs project_id of
        Raise e fs1 \<Rightarrow> Raise e fs1
      | Ok pages_dir fs1 \<Rightarrow>
          (let relative_path = get_cached_image_path project_id page_id version_number;
               filename = path_name (parse_path relative_path);
               filepath = joinpath pages_dir filename
           in case resize_image_for_thumbnail img max_width of
                Inl e \<Rightarrow> Raise e fs1
              | Inr resized \<Rightarrow>
                  (case convert_image_to_rgb (can_convert cfg) resized of
                     Inl e \<Rightarrow> Raise e fs1
                   | Inr rgb \<Rightarrow>
                       (case pil_save cfg fs1 rgb filepath (Some ''JPEG'') (Some quality) of
                          Raise e fs2 \<Rightarrow> Raise e fs2
                        | Ok u fs2 \<Rightarrow> Ok relative_path fs2))))"

definition save_material_image ::
  "config \<Rightarrow> int \<Rightarrow> fs \<Rightarrow> image \<Rightarrow> string option \<Rightarrow> string \<Rightarrow> string result" where
  "save_material_image cfg now fs img project_id image_format =
     (case get_materials_target_dir cfg fs project_id of
        Raise e fs1 \<Rightarrow> Raise e fs1
      | Ok materials_dir fs1 \<Rightarrow>
          (let ext = lower image_format;
               filename = ''material_'' @ str_int now @ ''.'' @ ext;
               filepath = joinpath materials_dir filename
           in case pil_save cfg fs1 img filepath None None of
                Raise e fs2 \<Rightarrow> Raise e fs2
              | Ok u fs2 \<Rightarrow>
                  (case relative_posix cfg filepath of
                     Inl e \<Rightarrow> Raise e fs2
                   | Inr r \<Rightarrow> Ok r fs2)))"

definition copy_material_file ::
  "config \<Rightarrow> int \<Rightarrow> fs \<Rightarrow> string \<Rightarrow> string option \<Rightarrow> (string \<times> string) result" where
  "copy_material_file cfg now fs relative_path target_project_id =
     (let source_path = joinpath (upload_folder cfg) (replace_backslash relative_path)
      in if \<not> path_exists cfg fs source_path then Raise FileNotFoundError fs
         else (case get_materials_target_dir cfg fs target_project_id of
                 Raise e fs1 \<Rightarrow> Raise e fs1
               | Ok target_dir fs1 \<Rightarrow>
                   (let new_filename = generate_material_filename now (path_name source_path);
                        target_path = joinpath target_dir new_filename
                    in case shutil_copy2 cfg fs1 source_path target_path of
                         Raise e fs2 \<Rightarrow> Raise e fs2
                       | Ok u fs2 \<Rightarrow>
                           (case relative_posix cfg target_path of
                              Inl e \<Rightarrow> Raise e fs2
                            | Inr r \<Rightarrow> Ok (r, new_filename) fs2))))"

definition move_material_file ::
  "config \<Rightarrow> int \<Rightarrow> fs \<Rightarrow> string \<Rightarrow> string option \<Rightarrow> (string \<times> string) result" where
  "move_material_file cfg now fs relative_path target_project_id =
     (let source_path = joinpath (upload_folder cfg) (replace_backslash relative_path)
      in if \<not> path_exists cfg fs source_path then Raise FileNotFoundError fs
         else (case get_materials_target_dir cfg fs target_project_id of
                 Raise e fs1 \<Rightarrow> Raise e fs1
               | Ok target_dir fs1 \<Rightarrow>
                   if path_parent source_path = target_dir
                   then Ok (relative_path, path_name source_path) fs1
                   else
                     (let new_filename =
                            generate_material_filename now (path_name source_path);
                          target_path = joinpath target_dir new_filename
                      in case shutil_move cfg fs1 source_path target_path of
                           Raise e fs2 \<Rightarrow> Raise e fs2
                         | Ok u fs2 \<Rightarrow>
                             (case relative_posix cfg target_path of
                                Inl e \<Rightarrow> Raise e fs2
                              | Inr r \<Rightarrow> Ok (r, new_filename) fs2))))"

text \<open>\<open>if path.exists() and path.is_file(): path.unlink()\<close>, telling whether it did.\<close>

definition unlink_if_file :: "config \<Rightarrow> fs \<Rightarrow> ppath \<Rightarrow> bool result" where
  "unlink_if_file cfg fs p =
     (if path_exists cfg fs p \<and> is_file cfg fs p
      then (case os_unlink cfg fs p of
              Inl e \<Rightarrow> Raise e fs
            | Inr fs' \<Rightarrow> Ok True fs')
      else Ok False fs)"

definition delete_page_image_version :: "config \<Rightarrow> fs \<Rightarrow> string \<Rightarrow> bool result" where
  "delete_page_image_version cfg fs image_path =
     (let filepath = joinpath (upload_folder cfg) (replace_backslash image_path)
      in case unlink_if_file cfg fs filepath of
           Raise e fs1 \<Rightarrow> Raise e fs1
         | Ok deleted fs1 \<Rightarrow>
             (let cache_filepath =
                    joinpath (path_parent filepath) (path_stem filepath @ ''_thumb.jpg'')
              in case unlink_if_file cfg fs1 cache_filepath of
                   Raise e fs2 \<Rightarrow> Raise e fs2
                 | Ok d fs2 \<Rightarrow> Ok deleted fs2))"

definition delete_template :: "config \<Rightarrow> fs \<Rightarrow> string \<Rightarrow> bool result" where
  "delete_template cfg fs project_id =
     (case get_template_dir cfg fs project_id of
        Raise e fs1 \<Rightarrow> Raise e fs1
      | Ok template_dir fs1 \<Rightarrow>
          (case locate cfg fs1 template_dir of
             Inl e \<Rightarrow> Raise e fs1
           | Inr d \<Rightarrow> Ok True (unlink_files fs1 (children fs1 d))))"

definition delete_page_image :: "config \<Rightarrow> fs \<Rightarrow> string \<Rightarrow> string \<Rightarrow> bool result" where
  "delete_page_image cfg fs project_id page_id =
     (case get_pages_dir cfg fs project_id of
        Raise e fs1 \<Rightarrow> Raise e fs1
      | Ok pages_dir fs1 \<Rightarrow>
          (case glob cfg fs1 pages_dir (page_id @ ''_*'') of
             Inl e \<Rightarrow> Raise e fs1
           | Inr files \<Rightarrow> Ok True (unlink_files fs1 files)))"

definition file_exists :: "config \<Rightarrow> fs \<Rightarrow> string \<Rightarrow> bool" where
  "file_exists cfg fs relative_path =
     (let filepath = joinpath (upload_folder cfg) (replace_backslash relative_path)
      in path_exists cfg fs filepath \<and> is_file cfg fs filepath)"

text \<open>
  \<open>save_user_template_thumbnail\<close> is one \<open>try\<close> block whose \<open>except Exception\<close>
  returns \<open>None\<close>; the body comes first.
\<close>

definition user_template_thumbnail_body ::
  "config \<Rightarrow> fs \<Rightarrow> string \<Rightarrow> string \<Rightarrow> int \<Rightarrow> int \<Rightarrow> string option result" where
  "user_template_thumbnail_body cfg fs template_id original_path quality max_width =
     (let original_full_path = joinpath (upload_folder cfg) (replace_backslash original_path)
      in if \<not> path_exists cfg fs original_full_path then Ok None fs
         else (case pil_open cfg fs original_full_path of
                 Inl e \<Rightarrow> Raise e fs
               | Inr opened \<Rightarrow>
                   (case resize_image_for_thumbnail opened max_width of
                      Inl e \<Rightarrow> Raise e fs
                    | Inr resized \<Rightarrow>
                        (case convert_image_to_rgb (can_convert cfg) resized of
                           Inl e \<Rightarrow> Raise e fs
                         | Inr rgb \<Rightarrow>
                             (case get_user_templates_dir cfg fs of
                                Raise e fs1 \<Rightarrow> Raise e fs1
                              | Ok templates_dir fs1 \<Rightarrow>
                                  (let template_dir = joinpath templates_dir template_id
                                   in case mkdir_p cfg fs1 template_dir of
                                        Raise e fs2 \<Rightarrow> Raise e fs2
                                      | Ok u fs2 \<Rightarrow>
                                          (let thumb_filepath =
                                                 joinpath template_dir ''template-thumb.webp''
                                           in case pil_save cfg fs2 rgb thumb_filepath
                                                     (Some ''WEBP'') (Some quality) of
                                                Raise e fs3 \<Rightarrow> Raise e fs3
                                              | Ok v fs3 \<Rightarrow>
                                                  (case relative_posix cfg thumb_filepath of
                                                     Inl e \<Rightarrow> Raise e fs3
                                                   | Inr r \<Rightarrow> Ok (Some r) fs3))))))))"

definition save_user_template_thumbnail ::
  "config \<Rightarrow> fs \<Rightarrow> string \<Rightarrow> string \<Rightarrow> int \<Rightarrow> int \<Rightarrow> string option result" where
  "save_user_template_thumbnail cfg fs template_id original_path quality max_width =
     (case user_template_thumbnail_body cfg fs template_id original_path quality max_width of
        Raise e fs' \<Rightarrow> Ok None fs'
      | Ok r fs' \<Rightarrow> Ok r fs')"

(*DEFS*)
text \<open>
  The height the specification asks for: \<open>round(height * maxWidth / width)\<close>, the exact
  quotient rounded to the nearest integer.
\<close>

definition rounded_height :: "image \<Rightarrow> nat \<Rightarrow> int" where
  "rounded_height img max_width =
     round (rat_of_nat (height img) * rat_of_nat max_width / rat_of_nat (width img))"

text \<open>
  \<open>composited_on_white src out\<close>: \<open>out\<close> is \<open>src\<close> pasted onto an opaque white RGB
  background of the same size, with the last band of \<open>src\<close> as the mask.
\<close>

definition composited_on_white :: "image \<Rightarrow> image \<Rightarrow> bool" where
  "composited_on_white src out =
     (out = Paste (New ''RGB'' (width src) (height src) (255, 255, 255)) src
              (Some (last_band src)))"

text \<open>
  A part of the image library's table of conversions, enough for the examples: the modes 1,
  L, LA, P, PA, RGB, RGBA and CMYK convert to RGB and to RGBA; \<open>La\<close> converts to neither.
\<close>

definition example_conv :: "string \<Rightarrow> string \<Rightarrow> bool" where
  "example_conv src dst =
     (src \<in> set [''1'', ''L'', ''LA'', ''P'', ''PA'', ''RGB'', ''RGBA'', ''CMYK''] \<and>
      dst \<in> set [''RGB'', ''RGBA''])"

section \<open>Notions of the specification\<close>

text \<open>
  Where a relative path leads when it is joined to the upload folder, the way every
  operation that takes a relative path does it, and read without looking at the file
  system: \<open>..\<close> steps to the parent. A relative path is inside the storage root when
  that location is the root's own location or below it.
\<close>

definition resolve_lex :: "config \<Rightarrow> ppath \<Rightarrow> string list" where
  "resolve_lex cfg p = foldl step (if fst p = [] then cwd cfg else []) (snd p)"

definition absolute_path :: "config \<Rightarrow> string \<Rightarrow> ppath" where
  "absolute_path cfg relative_path =
     joinpath (upload_folder cfg) (replace_backslash relative_path)"

definition inside_root :: "config \<Rightarrow> string \<Rightarrow> bool" where
  "inside_root cfg relative_path =
     is_prefix (resolve_lex cfg (upload_folder cfg))
       (resolve_lex cfg (absolute_path cfg relative_path))"

text \<open>
  Identifiers that name one directory entry: \<open>plain_name\<close> is a non-empty string other
  than \<open>.\<close> and \<open>..\<close> with no slash and no backslash; \<open>no_sep\<close> only asks for no slash
  and no backslash. \<open>clean_part\<close> and \<open>plain_part\<close> are what the path parser keeps as
  one part, and one part that is not \<open>..\<close>.
\<close>

definition plain_name :: "string \<Rightarrow> bool" where
  "plain_name s =
     (s \<noteq> [] \<and> s \<noteq> ''.'' \<and> s \<noteq> ''..'' \<and> CHR ''/'' \<notin> set s \<and> CHR 0x5C \<notin> set s)"

definition no_sep :: "string \<Rightarrow> bool" where
  "no_sep s = (CHR ''/'' \<notin> set s \<and> CHR 0x5C \<notin> set s)"

definition clean_part :: "string \<Rightarrow> bool" where
  "clean_part s = (s \<noteq> [] \<and> s \<noteq> ''.'' \<and> CHR ''/'' \<notin> set s)"

definition plain_part :: "string \<Rightarrow> bool" where
  "plain_part s = (clean_part s \<and> s \<noteq> ''..'' \<and> CHR 0x5C \<notin> set s)"

text \<open>The file name \<open>save_generated_image\<close> builds for a page image.\<close>

definition page_filename :: "string \<Rightarrow> int \<Rightarrow> string \<Rightarrow> int option \<Rightarrow> string" where
  "page_filename page_id now image_format version_number =
     (case version_number of
        Some v \<Rightarrow> page_id @ ''_v'' @ str_int v @ ''.'' @ lower image_format
      | None \<Rightarrow> page_id @ ''_'' @ str_int now @ ''.'' @ lower image_format)"

section \<open>An example installation\<close>

text \<open>
  The upload folder \<open>/srv/uploads\<close> of a process running in \<open>/srv\<close>, a codec that knows
  the extensions \<open>.png\<close>, \<open>.jpg\<close> and \<open>.webp\<close> and writes every image, and a file system
  in which only the upload folder exists.
\<close>

definition example_cfg :: config where
  "example_cfg =
     \<lparr>upload_folder = (''/'', [''srv'', ''uploads'']), cwd = [''srv''],
      ext_format = (\<lambda>e. if e = ''.png'' then Some ''PNG''
                          else if e = ''.jpg'' then Some ''JPEG''
                          else if e = ''.webp'' then Some ''WEBP'' else None),
      can_write = (\<lambda>f i. True),
      can_convert = example_conv\<rparr>"

definition example_fs :: fs where
  "example_fs = [([], Dir), ([''srv''], Dir), ([''srv'', ''uploads''], Dir)]"

definition example_image :: image where
  "example_image = Decoded ''RGB'' 800 600 0"

text \<open>The same file system with a regular file where the directory of project \<open>proj1\<close> goes.\<close>

definition example_fs_blocked :: fs where
  "example_fs_blocked =
     [([], Dir), ([''srv''], Dir), ([''srv'', ''uploads''], Dir),
      ([''srv'', ''uploads'', ''proj1''], File (Bytes 3))]"

section \<open>The state of the storage tree\<close>

text \<open>
  \<open>root_at cfg fs U\<close>: the upload folder resolves to the location \<open>U\<close>, which is a
  directory (the constructor of the service creates it). \<open>absent fs d\<close>: nothing exists
  at \<open>d\<close> or below it. \<open>ensure_dir\<close> is what \<open>mkdir(exist_ok=True)\<close> comes to at a
  location whose parent directory exists.
\<close>

definition root_at :: "config \<Rightarrow> fs \<Rightarrow> string list \<Rightarrow> bool" where
  "root_at cfg fs U = (locate cfg fs (upload_folder cfg) = Inr U \<and> map_of fs U = Some Dir)"

definition absent :: "fs \<Rightarrow> string list \<Rightarrow> bool" where
  "absent fs d = (\<forall>q \<in> set (map fst fs). \<not> is_prefix d q)"

definition ensure_dir :: "fs \<Rightarrow> string list \<Rightarrow> error + fs" where
  "ensure_dir fs q =
     (case map_of fs q of
        None \<Rightarrow> Inr (fs_put fs q Dir)
      | Some Dir \<Rightarrow> Inr fs
      | Some (File c) \<Rightarrow> Inl FileExistsError)"

text \<open>
  \<open>entry_name\<close>: a plain name that the file system takes as the name of one entry (no
  NUL byte, at most 255 bytes). \<open>literal_id\<close>: a page id that stands for itself in a glob
  pattern, with no slash and none of the characters \<open>*\<close>, \<open>?\<close> and \<open>[\<close>.
  \<open>begins_with pre s\<close>: the string \<open>s\<close> begins with \<open>pre\<close>.
\<close>

definition entry_name :: "string \<Rightarrow> bool" where
  "entry_name s = (plain_name s \<and> CHR 0x00 \<notin> set s \<and> length s \<le> 255)"

definition literal_id :: "string \<Rightarrow> bool" where
  "literal_id s =
     (CHR ''/'' \<notin> set s \<and> CHR ''['' \<notin> set s \<and> CHR ''*'' \<notin> set s \<and> CHR ''?'' \<notin> set s)"

definition begins_with :: "string \<Rightarrow> string \<Rightarrow> bool" where
  "begins_with pre s = (take (length pre) s = pre)"

text \<open>
  The example file system with project \<open>proj1\<close> holding images of the pages \<open>a\<close>,
  \<open>a_b\<close> and \<open>b\<close>.
\<close>

definition example_fs_pages :: fs where
  "example_fs_pages =
     [([], Dir), ([''srv''], Dir), ([''srv'', ''uploads''], Dir),
      ([''srv'', ''uploads'', ''proj1''], Dir),
      ([''srv'', ''uploads'', ''proj1'', ''pages''], Dir),
      ([''srv'', ''uploads'', ''proj1'', ''pages'', ''a_v1.png''],
         File (Encoded ''PNG'' None example_image)),
      ([''srv'', ''uploads'', ''proj1'', ''pages'', ''a_v1_thumb.jpg''],
         File (Encoded ''JPEG'' (Some 85) example_image)),
      ([''srv'', ''uploads'', ''proj1'', ''pages'', ''a_b_v1.png''],
         File (Encoded ''PNG'' None example_image)),
      ([''srv'', ''uploads'', ''proj1'', ''pages'', ''b_v1.png''],
         File (Encoded ''PNG'' None example_image))]"

(*PROPERTIES*)

section \<open>Properties of the image helpers\<close>

lemma trunc_double_bounds:
  "rat_of_int (trunc_double x) \<le> dval x \<and> dval x < rat_of_int (trunc_double x) + 1"
proof (cases x)
  case (Pair m e)
  show ?thesis
  proof (cases "0 \<le> e")
    case True
    with Pair show ?thesis by (simp add: trunc_double_def dval_def)
  next
    case False
    define k where "k = (2::nat) ^ nat (- e)"
    have kpos: "0 < k" by (simp add: k_def)
    have le: "(m div k) * k \<le> m" by simp
    have lt: "m < (m div k + 1) * k"
      using kpos by (metis Suc_eq_plus1 dividend_less_div_times mult.commute mult_Suc)
    have "rat_of_nat ((m div k) * k) \<le> rat_of_nat m"
      using le of_nat_le_iff by blast
    then have a: "rat_of_nat (m div k) \<le> rat_of_nat m / rat_of_nat k"
      using kpos by (simp add: pos_le_divide_eq)
    have "rat_of_nat m < rat_of_nat ((m div k + 1) * k)"
      using lt of_nat_less_iff by blast
    then have b: "rat_of_nat m / rat_of_nat k < rat_of_nat (m div k) + 1"
      using kpos by (simp add: pos_divide_less_eq algebra_simps)
    have kk: "rat_of_nat k = 2 ^ nat (- e)" by (simp add: k_def)
    from a b False Pair show ?thesis
      by (simp add: trunc_double_def dval_def kk k_def)
  qed
qed

lemma resize_2000x1001:
  "resize_image_for_thumbnail (Decoded ''RGB'' 2000 1001 0) 1920 =
     Inr (Resize (Decoded ''RGB'' 2000 1001 0) 1920 960)"
  by (simp add: resize_image_for_thumbnail_def pil_resize_def new_height_def mul_double_def
        trunc_double_def to_double_def round_half_even_def)

text \<open>
  C4, as stated: for an image wider than the maximum width the output height is
  \<open>round(height * maxWidth / width)\<close>. This fails: a 2000 x 1001 image resized to the
  width 1920 comes out 960 pixels high, while the rounded quotient 960.96 is 961.
\<close>

theorem thumbnail_height_rounding_counterexample:
  "resize_image_for_thumbnail (Decoded ''RGB'' 2000 1001 0) 1920 =
     Inr (Resize (Decoded ''RGB'' 2000 1001 0) 1920 960) \<and>
   height (Resize (Decoded ''RGB'' 2000 1001 0) 1920 960) = 960 \<and>
   rounded_height (Decoded ''RGB'' 2000 1001 0) 1920 = 961"
  by (simp add: resize_2000x1001 rounded_height_def round_def floor_eq_iff)

text \<open>
  C4, amended: for an image wider than the maximum width, whenever resizing returns, the
  output height is \<open>int(height * (max_width / width))\<close>: the binary64 product truncated
  toward zero, so that it is at most the product and less than one below it.
\<close>

theorem thumbnail_height_truncates:
  assumes "max_width < int (width img)"
    and "resize_image_for_thumbnail img max_width = Inr out"
  shows "int (height out) =
           trunc_double (mul_double (height img) (to_double (nat max_width) (width img))) \<and>
         rat_of_int (int (height out)) \<le>
           dval (mul_double (height img) (to_double (nat max_width) (width img))) \<and>
         dval (mul_double (height img) (to_double (nat max_width) (width img))) <
           rat_of_int (int (height out)) + 1"
proof -
  let ?p = "mul_double (height img) (to_double (nat max_width) (width img))"
  from assms have "1 \<le> trunc_double ?p" and "out = Resize img (nat max_width) (nat (trunc_double ?p))"
    by (auto simp: resize_image_for_thumbnail_def pil_resize_def new_height_def
          split: if_splits)
  then have "int (height out) = trunc_double ?p" by simp
  with trunc_double_bounds [of ?p] show ?thesis by simp
qed

theorem thumbnail_height_truncates_witness:
  "1920 < int (width (Decoded ''RGB'' 2000 1001 0)) \<and>
   resize_image_for_thumbnail (Decoded ''RGB'' 2000 1001 0) 1920 =
     Inr (Resize (Decoded ''RGB'' 2000 1001 0) 1920 960) \<and>
   rat_of_int (int (height (Resize (Decoded ''RGB'' 2000 1001 0) 1920 960))) \<le>
     dval (mul_double (height (Decoded ''RGB'' 2000 1001 0))
            (to_double (nat 1920) (width (Decoded ''RGB'' 2000 1001 0))))"
proof -
  have w: "1920 < int (width (Decoded ''RGB'' 2000 1001 0))" by simp
  from thumbnail_height_truncates [OF w resize_2000x1001] w resize_2000x1001
  show ?thesis by blast
qed

text \<open>
  C8, as stated: for every image wider than the maximum width the output width is exactly
  the maximum width. This fails where there is no output: a 4000 x 1 image at the width
  1920 gets the height \<open>int(1 * (1920 / 4000)) = 0\<close>, which \<open>Image.resize\<close> refuses.
\<close>

theorem resize_no_output_counterexample:
  "1920 < int (width (Decoded ''RGB'' 4000 1 0)) \<and>
   new_height (Decoded ''RGB'' 4000 1 0) 1920 = 0 \<and>
   resize_image_for_thumbnail (Decoded ''RGB'' 4000 1 0) 1920 = Inl ValueError"
  by (simp add: resize_image_for_thumbnail_def pil_resize_def new_height_def mul_double_def
        trunc_double_def to_double_def round_half_even_def)

text \<open>
  C8, amended: an image no wider than the maximum width is returned unchanged. An image
  wider than the maximum width is resized exactly when the maximum width and the computed
  height \<open>int(height * (max_width / width))\<close> are both at least 1, and then the output
  width is exactly the maximum width; otherwise the call raises and there is no output.
  Whenever there is an output, it is no wider than the input.
\<close>

theorem resize_width_when_returns:
  "(\<not> max_width < int (width img) \<longrightarrow> resize_image_for_thumbnail img max_width = Inr img) \<and>
   (max_width < int (width img) \<and> 1 \<le> max_width \<and> 1 \<le> new_height img (nat max_width) \<longrightarrow>
      resize_image_for_thumbnail img max_width =
        Inr (Resize img (nat max_width) (nat (new_height img (nat max_width)))) \<and>
      int (width (Resize img (nat max_width) (nat (new_height img (nat max_width))))) =
        max_width) \<and>
   (max_width < int (width img) \<and> \<not> (1 \<le> max_width \<and> 1 \<le> new_height img (nat max_width)) \<longrightarrow>
      (\<exists>e. resize_image_for_thumbnail img max_width = Inl e)) \<and>
   (\<forall>out. resize_image_for_thumbnail img max_width = Inr out \<longrightarrow> width out \<le> width img)"
  by (auto simp: resize_image_for_thumbnail_def pil_resize_def split: if_splits)

theorem resize_width_when_returns_witness:
  "1920 < int (width (Decoded ''RGB'' 2000 1001 0)) \<and>
   1 \<le> new_height (Decoded ''RGB'' 2000 1001 0) (nat 1920) \<and>
   resize_image_for_thumbnail (Decoded ''RGB'' 2000 1001 0) 1920 =
     Inr (Resize (Decoded ''RGB'' 2000 1001 0) 1920 960) \<and>
   int (width (Resize (Decoded ''RGB'' 2000 1001 0) 1920 960)) = 1920 \<and>
   width (Resize (Decoded ''RGB'' 2000 1001 0) 1920 960) \<le> width (Decoded ''RGB'' 2000 1001 0) \<and>
   \<not> 1920 < int (width (Decoded ''RGB'' 800 600 0)) \<and>
   resize_image_for_thumbnail (Decoded ''RGB'' 800 600 0) 1920 = Inr (Decoded ''RGB'' 800 600 0) \<and>
   1920 < int (width (Decoded ''RGB'' 4000 1 0)) \<and>
   \<not> 1 \<le> new_height (Decoded ''RGB'' 4000 1 0) (nat 1920) \<and>
   (\<exists>e. resize_image_for_thumbnail (Decoded ''RGB'' 4000 1 0) 1920 = Inl e)"
proof -
  have a: "new_height (Decoded ''RGB'' 2000 1001 0) (nat 1920) = 960"
    by (simp add: new_height_def mul_double_def trunc_double_def to_double_def
          round_half_even_def)
  have b: "new_height (Decoded ''RGB'' 4000 1 0) (nat 1920) = 0"
    by (simp add: new_height_def mul_double_def trunc_double_def to_double_def
          round_half_even_def)
  from resize_width_when_returns [of 1920 "Decoded ''RGB'' 2000 1001 0"]
    resize_width_when_returns [of 1920 "Decoded ''RGB'' 800 600 0"]
    resize_width_when_returns [of 1920 "Decoded ''RGB'' 4000 1 0"] a b
  show ?thesis by simp
qed

text \<open>
  What \<open>convert_image_to_rgb\<close> does, mode by mode, whatever conversions the library has.
\<close>

lemma convert_image_to_rgb_cases:
  "(mode img \<in> {''RGBA'', ''LA''} \<longrightarrow>
      convert_image_to_rgb conv img =
        Inr (Paste (New ''RGB'' (width img) (height img) (255, 255, 255)) img
               (Some (last_band img)))) \<and>
   (mode img = ''P'' \<and> conv ''P'' ''RGBA'' \<longrightarrow>
      convert_image_to_rgb conv img =
        Inr (Paste (New ''RGB'' (width img) (height img) (255, 255, 255))
               (Convert img ''RGBA'') (Some (last_band (Convert img ''RGBA''))))) \<and>
   (mode img = ''P'' \<and> \<not> conv ''P'' ''RGBA'' \<longrightarrow>
      convert_image_to_rgb conv img = Inl ValueError) \<and>
   (mode img = ''RGB'' \<longrightarrow> convert_image_to_rgb conv img = Inr img) \<and>
   (mode img \<notin> {''RGBA'', ''LA'', ''P'', ''RGB''} \<and> conv (mode img) ''RGB'' \<longrightarrow>
      convert_image_to_rgb conv img = Inr (Convert img ''RGB'')) \<and>
   (mode img \<notin> {''RGBA'', ''LA'', ''P'', ''RGB''} \<and> \<not> conv (mode img) ''RGB'' \<longrightarrow>
      convert_image_to_rgb conv img = Inl ValueError)"
  by (auto simp: convert_image_to_rgb_def pil_convert_def Let_def)

lemma convert_image_to_rgb_result:
  assumes "convert_image_to_rgb conv img = Inr out"
  shows "mode out = ''RGB'' \<and> width out = width img \<and> height out = height img"
  using assms
  by (auto simp: convert_image_to_rgb_def pil_convert_def Let_def split: if_splits)

text \<open>
  C7: every image with an alpha or palette channel is composited onto an opaque white
  background with its alpha (last) channel as mask. The code tests for the modes RGBA, LA
  and P only, so an image in mode PA, which has a palette and an alpha band, misses the
  compositing branch: it is converted directly to RGB, and its alpha band is dropped
  without ever being used as a mask. (For the mode La the direct conversion raises.)
\<close>

theorem convert_image_to_rgb_misses_PA:
  "has_alpha (mode (Decoded ''PA'' 1 1 0)) \<and> has_palette (mode (Decoded ''PA'' 1 1 0)) \<and>
   convert_image_to_rgb example_conv (Decoded ''PA'' 1 1 0) =
     Inr (Convert (Decoded ''PA'' 1 1 0) ''RGB'') \<and>
   \<not> composited_on_white (Decoded ''PA'' 1 1 0) (Convert (Decoded ''PA'' 1 1 0) ''RGB'') \<and>
   \<not> composited_on_white (Convert (Decoded ''PA'' 1 1 0) ''RGBA'')
       (Convert (Decoded ''PA'' 1 1 0) ''RGB'') \<and>
   convert_image_to_rgb example_conv (Decoded ''La'' 1 1 0) = Inl ValueError"
  by (simp add: has_alpha_def has_palette_def convert_image_to_rgb_def pil_convert_def
        example_conv_def composited_on_white_def)

section \<open>Properties of the returned paths\<close>

subsection \<open>Strings and pure paths\<close>

lemma split_on_notin: "c \<notin> set s \<Longrightarrow> split_on c s = [s]"
  by (induction s) auto

lemma split_on_append: "c \<notin> set a \<Longrightarrow> split_on c (a @ c # b) = a # split_on c b"
  by (induction a) auto

lemma split_on_nonempty: "split_on c s \<noteq> []"
  by (induction s) (auto split: list.splits)

lemma parse_path_plain:
  "s \<noteq> [] \<Longrightarrow> s \<noteq> ''.'' \<Longrightarrow> CHR ''/'' \<notin> set s \<Longrightarrow> parse_path s = ([], [s])"
  by (cases s) (auto simp: parse_path_def split_on_notin)

lemma split_on_join:
  "ps \<noteq> [] \<Longrightarrow> \<forall>p \<in> set ps. c \<notin> set p \<Longrightarrow> split_on c (join_with [c] ps) = ps"
proof (induction ps)
  case Nil
  then show ?case by simp
next
  case (Cons x xs)
  show ?case
  proof (cases xs)
    case Nil
    with Cons.prems show ?thesis by (simp add: split_on_notin)
  next
    case (Cons y ys)
    with Cons.prems Cons.IH show ?thesis
      using split_on_append [of c x "join_with [c] (y # ys)"] by simp
  qed
qed

lemma join_with_hd:
  "ps \<noteq> [] \<Longrightarrow> hd ps \<noteq> [] \<Longrightarrow> join_with sep ps \<noteq> [] \<and> hd (join_with sep ps) = hd (hd ps)"
  by (induction sep ps rule: join_with.induct) auto

lemma parse_path_join:
  assumes "ps \<noteq> []" and "\<forall>p \<in> set ps. clean_part p"
  shows "parse_path (join_with ''/'' ps) = ([], ps)"
proof -
  from assms have h: "hd ps \<noteq> []" "CHR ''/'' \<notin> set (hd ps)"
    by (auto simp: clean_part_def)
  with assms(1) have j: "join_with ''/'' ps \<noteq> []" "hd (join_with ''/'' ps) = hd (hd ps)"
    using join_with_hd by blast+
  have "hd (hd ps) \<noteq> CHR ''/''" using h by (cases "hd ps") auto
  with j have r: "take 1 (join_with ''/'' ps) \<noteq> ''/''" "take 2 (join_with ''/'' ps) \<noteq> ''//''"
    by (cases "join_with ''/'' ps"; auto)+
  have s: "split_on CHR ''/'' (join_with ''/'' ps) = ps"
    using assms split_on_join [of ps "CHR ''/''"] by (auto simp: clean_part_def)
  have f: "filter (\<lambda>p. p \<noteq> [] \<and> p \<noteq> ''.'') ps = ps"
    using assms(2) by (auto simp: clean_part_def filter_id_conv)
  show ?thesis using r s f by (simp add: parse_path_def)
qed

lemma replace_backslash_id: "CHR 0x5C \<notin> set s \<Longrightarrow> replace_backslash s = s"
  by (induction s) (auto simp: replace_backslash_def)

lemma digits_chars: "\<forall>c \<in> set (digits n). 48 \<le> (of_char c :: nat) \<and> (of_char c :: nat) \<le> 57"
proof (induction n rule: digits.induct)
  case (1 n)
  show ?case
  proof (cases "n < 10")
    case True
    then show ?thesis by (subst digits.simps) simp
  next
    case False
    have "n mod 10 < 10" by simp
    then have "(48 + n mod 10) mod 256 = 48 + n mod 10" by simp
    with False 1 show ?thesis by (subst digits.simps) auto
  qed
qed

lemma str_int_no_sep:
  "CHR ''/'' \<notin> set (str_int i)" "CHR 0x5C \<notin> set (str_int i)" "CHR ''.'' \<notin> set (str_int i)"
  using digits_chars [of "nat i"] digits_chars [of "nat (- i)"]
  by (auto simp: str_int_def)

lemma lower_char_eq:
  "of_char c \<notin> {97..(122::nat)} \<Longrightarrow> lower_char x = c \<Longrightarrow> x = c"
  by (auto simp: lower_char_def Let_def split: if_splits)

lemma lower_keeps_out:
  assumes "of_char c \<notin> {97..(122::nat)}" and "c \<notin> set s"
  shows "c \<notin> set (lower s)"
proof
  assume "c \<in> set (lower s)"
  then obtain x where x: "x \<in> set s" and l: "lower_char x = c"
    by (auto simp: lower_def)
  from lower_char_eq [OF assms(1) l] have "x = c" .
  with x assms(2) show False by simp
qed

lemma lower_no_sep:
  "CHR ''/'' \<notin> set s \<Longrightarrow> CHR ''/'' \<notin> set (lower s)"
  "CHR 0x5C \<notin> set s \<Longrightarrow> CHR 0x5C \<notin> set (lower s)"
  "CHR ''.'' \<notin> set s \<Longrightarrow> CHR ''.'' \<notin> set (lower s)"
  by (rule lower_keeps_out; simp)+

lemma foldl_step_clean:
  "\<forall>p \<in> set ps. p \<noteq> ''..'' \<Longrightarrow> foldl step cur ps = cur @ ps"
  by (induction ps arbitrary: cur) (auto simp: step_def)

lemma set_join_with: "set (join_with sep ps) \<subseteq> set sep \<union> \<Union> (set ` set ps)"
  by (induction sep ps rule: join_with.induct) auto

lemma joinpath_clean: "clean_part s \<Longrightarrow> joinpath p s = (fst p, snd p @ [s])"
  by (simp add: joinpath_def clean_part_def parse_path_plain)

lemma joinpath_join:
  "ps \<noteq> [] \<Longrightarrow> \<forall>p \<in> set ps. clean_part p \<Longrightarrow> joinpath q (join_with ''/'' ps) = (fst q, snd q @ ps)"
  by (simp add: joinpath_def parse_path_join)

lemma plain_name_part: "plain_name s \<Longrightarrow> plain_part s"
  by (simp add: plain_name_def plain_part_def clean_part_def)

lemma inside_root_join:
  assumes "ps \<noteq> []" and "\<forall>p \<in> set ps. plain_part p"
  shows "inside_root cfg (join_with ''/'' ps)"
proof -
  have nb: "CHR 0x5C \<notin> set (join_with ''/'' ps)"
    using set_join_with [of "''/''" ps] assms(2) by (auto simp: plain_part_def)
  have cl: "\<forall>p \<in> set ps. clean_part p" using assms(2) by (simp add: plain_part_def)
  have nd: "\<forall>p \<in> set ps. p \<noteq> ''..''" using assms(2) by (simp add: plain_part_def)
  have j: "absolute_path cfg (join_with ''/'' ps) =
      (fst (upload_folder cfg), snd (upload_folder cfg) @ ps)"
    using joinpath_join [OF assms(1) cl] nb
    by (simp add: absolute_path_def replace_backslash_id)
  show ?thesis
    using nd by (simp add: inside_root_def j resolve_lex_def foldl_step_clean is_prefix_def)
qed

lemma page_filename_plain:
  assumes "no_sep page_id" and "no_sep rest" and "no_sep mid"
  shows "plain_part (page_id @ CHR ''_'' # mid @ rest)"
proof -
  let ?f = "page_id @ CHR ''_'' # mid @ rest"
  have u: "CHR ''_'' \<in> set ?f" by simp
  have ne: "?f \<noteq> s" if "CHR ''_'' \<notin> set s" for s
    using u that by metis
  have "?f \<noteq> ''.''" "?f \<noteq> ''..''" "?f \<noteq> []"
    by (rule ne, simp)+
  with assms show ?thesis
    by (auto simp: plain_part_def clean_part_def no_sep_def)
qed

lemma str_int_no_sep': "no_sep (str_int v)"
  by (simp add: no_sep_def str_int_no_sep)

lemma lower_no_sep': "no_sep s \<Longrightarrow> no_sep (lower s)"
  by (simp add: no_sep_def lower_no_sep)

lemma no_sep_append: "no_sep (a @ b) = (no_sep a \<and> no_sep b)"
  by (auto simp: no_sep_def)

lemma no_sep_Cons: "no_sep (c # b) = (c \<noteq> CHR ''/'' \<and> c \<noteq> CHR 0x5C \<and> no_sep b)"
  by (auto simp: no_sep_def)

lemma no_sep_Nil: "no_sep []"
  by (simp add: no_sep_def)

lemma cached_inside:
  assumes "plain_name project_id" and "no_sep page_id"
  shows "inside_root cfg (get_cached_image_path project_id page_id v)"
proof -
  let ?f = "page_id @ ''_v'' @ str_int v @ ''_thumb.jpg''"
  have "plain_part ?f"
    using page_filename_plain [of page_id "[]" "''v'' @ str_int v @ ''_thumb.jpg''"] assms(2)
    by (simp add: no_sep_append no_sep_Cons no_sep_Nil str_int_no_sep')
  moreover have "plain_part ''pages''" by (simp add: plain_part_def clean_part_def)
  moreover have "get_cached_image_path project_id page_id v = join_with ''/'' [project_id, ''pages'', ?f]"
    by (simp add: get_cached_image_path_def)
  ultimately show ?thesis
    using inside_root_join [of "[project_id, ''pages'', ?f]" cfg] plain_name_part [OF assms(1)]
    by simp
qed

lemma get_project_dir_path:
  "get_project_dir cfg fs p = Ok d fs' \<Longrightarrow> d = joinpath (upload_folder cfg) p"
  by (auto simp: get_project_dir_def Let_def split: result.splits)

lemma project_subdir_path:
  "project_subdir cfg fs p sub = Ok d fs' \<Longrightarrow> d = joinpath (joinpath (upload_folder cfg) p) sub"
  by (auto simp: project_subdir_def Let_def split: result.splits dest: get_project_dir_path)

lemma get_materials_target_dir_path:
  "get_materials_target_dir cfg fs t = Ok d fs' \<Longrightarrow>
     d = (case t of None \<Rightarrow> joinpath (upload_folder cfg) ''materials''
          | Some p \<Rightarrow> joinpath (joinpath (upload_folder cfg) p) ''materials'')"
  by (auto simp: get_materials_target_dir_def get_global_materials_dir_def get_materials_dir_def
      Let_def split: result.splits option.splits dest: project_subdir_path)

lemma relative_posix_under:
  "ps \<noteq> [] \<Longrightarrow>
   relative_posix cfg (fst (upload_folder cfg), snd (upload_folder cfg) @ ps) =
     Inr (join_with ''/'' ps)"
  by (simp add: relative_posix_def relative_to_def as_posix_def)

lemma plain_part_pages: "plain_part ''pages''" "plain_part ''materials''"
  by (simp_all add: plain_part_def clean_part_def)

lemma plain_part_clean: "plain_part s \<Longrightarrow> clean_part s"
  by (simp add: plain_part_def)

lemma page_filename_plain_part:
  assumes "no_sep page_id" and "no_sep image_format"
  shows "plain_part (page_filename page_id now image_format v)"
proof (cases v)
  case None
  then show ?thesis
    using page_filename_plain [of page_id "''.'' @ lower image_format" "str_int now"] assms
    by (simp add: page_filename_def no_sep_append no_sep_Cons no_sep_Nil str_int_no_sep' lower_no_sep')
next
  case (Some k)
  then show ?thesis
    using page_filename_plain [of page_id "''.'' @ lower image_format" "''v'' @ str_int k"] assms
    by (simp add: page_filename_def no_sep_append no_sep_Cons no_sep_Nil str_int_no_sep' lower_no_sep')
qed

lemma save_generated_image_path:
  assumes ok: "save_generated_image cfg now fs img project_id page_id image_format v = Ok r fs'"
    and p: "plain_name project_id" and g: "no_sep page_id" and f: "no_sep image_format"
  shows "r = project_id @ ''/pages/'' @ page_filename page_id now image_format v"
proof -
  let ?fn = "page_filename page_id now image_format v"
  from ok obtain d fs1 where d: "get_pages_dir cfg fs project_id = Ok d fs1"
    by (auto simp: save_generated_image_def split: result.splits)
  have pp: "plain_part project_id" using p by (rule plain_name_part)
  have pf: "plain_part ?fn" using g f by (rule page_filename_plain_part)
  from d have "d = joinpath (joinpath (upload_folder cfg) project_id) ''pages''"
    by (simp add: get_pages_dir_def project_subdir_path)
  then have dd: "d = (fst (upload_folder cfg), snd (upload_folder cfg) @ [project_id, ''pages''])"
    using pp plain_part_pages by (simp add: joinpath_clean plain_part_clean)
  have fp: "joinpath d ?fn = (fst (upload_folder cfg), snd (upload_folder cfg) @ [project_id, ''pages'', ?fn])"
    using pf by (simp add: dd joinpath_clean plain_part_clean)
  have "relative_posix cfg (joinpath d ?fn) = Inr (join_with ''/'' [project_id, ''pages'', ?fn])"
    unfolding fp by (rule relative_posix_under) simp
  with ok d show ?thesis
    by (auto simp: save_generated_image_def Let_def page_filename_def
        split: result.splits sum.splits option.splits)
qed

lemma save_material_image_path:
  assumes ok: "save_material_image cfg now fs img t image_format = Ok r fs'"
    and p: "case t of None \<Rightarrow> True | Some project_id \<Rightarrow> plain_name project_id"
    and f: "no_sep image_format"
  shows "r = (case t of None \<Rightarrow> [] | Some project_id \<Rightarrow> project_id @ ''/'') @
             ''materials/material_'' @ str_int now @ ''.'' @ lower image_format"
proof -
  let ?fn = "''material_'' @ str_int now @ ''.'' @ lower image_format"
  from ok obtain d fs1 where d: "get_materials_target_dir cfg fs t = Ok d fs1"
    by (auto simp: save_material_image_def split: result.splits)
  have pf: "plain_part ?fn"
    using page_filename_plain [of "''material''" "''.'' @ lower image_format" "str_int now"] f
    by (simp add: no_sep_append no_sep_Cons no_sep_Nil str_int_no_sep' lower_no_sep')
  show ?thesis
  proof (cases t)
    case None
    with d have dd: "d = (fst (upload_folder cfg), snd (upload_folder cfg) @ [''materials''])"
      using plain_part_pages
      by (auto dest!: get_materials_target_dir_path simp: joinpath_clean plain_part_clean)
    have fp: "joinpath d ?fn = (fst (upload_folder cfg), snd (upload_folder cfg) @ [''materials'', ?fn])"
      using pf by (simp add: dd joinpath_clean plain_part_clean)
    have "relative_posix cfg (joinpath d ?fn) = Inr (join_with ''/'' [''materials'', ?fn])"
      unfolding fp by (rule relative_posix_under) simp
    with ok d None show ?thesis
      by (auto simp: save_material_image_def Let_def split: result.splits sum.splits)
  next
    case (Some project_id)
    with p have pp: "plain_part project_id" by (simp add: plain_name_part)
    from d Some have dd: "d = (fst (upload_folder cfg), snd (upload_folder cfg) @ [project_id, ''materials''])"
      using plain_part_pages pp
      by (auto dest!: get_materials_target_dir_path simp: joinpath_clean plain_part_clean)
    have fp: "joinpath d ?fn =
        (fst (upload_folder cfg), snd (upload_folder cfg) @ [project_id, ''materials'', ?fn])"
      using pf by (simp add: dd joinpath_clean plain_part_clean)
    have "relative_posix cfg (joinpath d ?fn) = Inr (join_with ''/'' [project_id, ''materials'', ?fn])"
      unfolding fp by (rule relative_posix_under) simp
    with ok d Some show ?thesis
      by (auto simp: save_material_image_def Let_def split: result.splits sum.splits)
  qed
qed

lemma save_cached_image_path:
  "save_cached_image cfg fs img project_id page_id v quality max_width = Ok r fs' \<Longrightarrow>
     r = get_cached_image_path project_id page_id v"
  by (auto simp: save_cached_image_def Let_def split: result.splits sum.splits)

lemma inside_root_pages:
  assumes "plain_name project_id" and "plain_part f"
  shows "inside_root cfg (project_id @ ''/pages/'' @ f)"
  using inside_root_join [of "[project_id, ''pages'', f]" cfg] plain_name_part [OF assms(1)]
    assms(2) plain_part_pages
  by simp

lemma inside_root_materials:
  assumes "plain_part f"
  shows "inside_root cfg (''materials/'' @ f)"
    and "plain_name project_id \<Longrightarrow> inside_root cfg (project_id @ ''/materials/'' @ f)"
  using inside_root_join [of "[''materials'', f]" cfg]
    inside_root_join [of "[project_id, ''materials'', f]" cfg] plain_name_part [of project_id]
    assms plain_part_pages
  by simp_all

lemma material_filename_plain_part:
  assumes "no_sep image_format"
  shows "plain_part (''material_'' @ str_int now @ ''.'' @ lower image_format)"
  using page_filename_plain [of "''material''" "''.'' @ lower image_format" "str_int now"] assms
  by (simp add: no_sep_append no_sep_Cons no_sep_Nil str_int_no_sep' lower_no_sep')

subsection \<open>No returned path escapes the storage root\<close>

text \<open>
  C2, as stated: for every input, project ids containing \<open>..\<close> or separators included,
  the returned relative path leads inside the storage root. This fails: nothing checks
  the identifiers. For the project id \<open>..\<close> the cached image path is
  \<open>../pages/p1_v1_thumb.jpg\<close>, and saving a page image writes \<open>/srv/pages/p1_v1.png\<close>,
  next to the upload folder \<open>/srv/uploads\<close>, and returns \<open>../pages/p1_v1.png\<close>.
\<close>

theorem returned_path_escapes_counterexample:
  "get_cached_image_path ''..'' ''p1'' 1 = ''../pages/p1_v1_thumb.jpg'' \<and>
   \<not> inside_root example_cfg (get_cached_image_path ''..'' ''p1'' 1) \<and>
   save_generated_image example_cfg 0 example_fs example_image ''..'' ''p1'' ''PNG'' (Some 1) =
     Ok ''../pages/p1_v1.png''
       [([''srv'', ''pages'', ''p1_v1.png''], File (Encoded ''PNG'' None example_image)),
        ([''srv'', ''pages''], Dir),
        ([], Dir), ([''srv''], Dir), ([''srv'', ''uploads''], Dir)] \<and>
   \<not> inside_root example_cfg ''../pages/p1_v1.png''"
  by code_simp

text \<open>
  C2, amended: when the project id is a plain name (not empty, not \<open>.\<close> or \<open>..\<close>, no
  slash or backslash) and the page id and the image format contain no slash or backslash,
  the path \<open>get_cached_image_path\<close> derives is inside the storage root, and so is every
  path returned by \<open>save_generated_image\<close>, \<open>save_cached_image\<close> and
  \<open>save_material_image\<close> (for a project and for the global materials); the returned
  paths are \<open>{project}/pages/{file}\<close>, \<open>{project}/materials/{file}\<close> and
  \<open>materials/{file}\<close>.
\<close>

theorem returned_paths_inside_root:
  assumes "plain_name project_id" and "no_sep page_id" and "no_sep image_format"
  shows "inside_root cfg (get_cached_image_path project_id page_id version_number) \<and>
         (\<forall>r fs'. save_generated_image cfg now fs img project_id page_id image_format v =
                    Ok r fs' \<longrightarrow>
            r = project_id @ ''/pages/'' @ page_filename page_id now image_format v \<and>
            inside_root cfg r) \<and>
         (\<forall>r fs'. save_cached_image cfg fs img project_id page_id version_number quality
                    max_width = Ok r fs' \<longrightarrow>
            r = get_cached_image_path project_id page_id version_number \<and>
            inside_root cfg r) \<and>
         (\<forall>r fs'. save_material_image cfg now fs img (Some project_id) image_format =
                    Ok r fs' \<longrightarrow>
            r = project_id @ ''/materials/material_'' @ str_int now @ ''.'' @
                  lower image_format \<and>
            inside_root cfg r) \<and>
         (\<forall>r fs'. save_material_image cfg now fs img None image_format = Ok r fs' \<longrightarrow>
            r = ''materials/material_'' @ str_int now @ ''.'' @ lower image_format \<and>
            inside_root cfg r)"
proof -
  have c: "inside_root cfg (get_cached_image_path project_id page_id k)" for k
    using assms(1,2) by (rule cached_inside)
  have g: "r = project_id @ ''/pages/'' @ page_filename page_id now image_format v \<and>
           inside_root cfg r"
    if "save_generated_image cfg now fs img project_id page_id image_format v = Ok r fs'"
    for r fs'
    using save_generated_image_path [OF that assms]
      inside_root_pages [OF assms(1) page_filename_plain_part [OF assms(2,3)]]
    by simp
  have t: "r = get_cached_image_path project_id page_id version_number \<and> inside_root cfg r"
    if "save_cached_image cfg fs img project_id page_id version_number quality max_width =
          Ok r fs'" for r fs'
    using save_cached_image_path [OF that] c by simp
  have m: "r = project_id @ ''/materials/material_'' @ str_int now @ ''.'' @
                 lower image_format \<and> inside_root cfg r"
    if "save_material_image cfg now fs img (Some project_id) image_format = Ok r fs'"
    for r fs'
    using save_material_image_path [OF that] assms(1,3)
      inside_root_materials(2) [OF material_filename_plain_part [OF assms(3)] assms(1)]
    by simp
  have n: "r = ''materials/material_'' @ str_int now @ ''.'' @ lower image_format \<and>
           inside_root cfg r"
    if "save_material_image cfg now fs img None image_format = Ok r fs'" for r fs'
    using save_material_image_path [OF that] assms(3)
      inside_root_materials(1) [OF material_filename_plain_part [OF assms(3)]]
    by simp
  from c g t m n show ?thesis by blast
qed

theorem returned_paths_inside_root_witness:
  "plain_name ''proj1'' \<and> no_sep ''p1'' \<and> no_sep ''PNG'' \<and>
   save_generated_image example_cfg 0 example_fs example_image ''proj1'' ''p1'' ''PNG'' (Some 1) =
     Ok ''proj1/pages/p1_v1.png''
       [([''srv'', ''uploads'', ''proj1'', ''pages'', ''p1_v1.png''],
           File (Encoded ''PNG'' None example_image)),
        ([''srv'', ''uploads'', ''proj1'', ''pages''], Dir),
        ([''srv'', ''uploads'', ''proj1''], Dir),
        ([], Dir), ([''srv''], Dir), ([''srv'', ''uploads''], Dir)] \<and>
   inside_root example_cfg ''proj1/pages/p1_v1.png'' \<and>
   inside_root example_cfg (get_cached_image_path ''proj1'' ''p1'' 1)"
proof -
  have h: "plain_name ''proj1''" "no_sep ''p1''" "no_sep ''PNG''"
    by (simp_all add: plain_name_def no_sep_def)
  have s: "save_generated_image example_cfg 0 example_fs example_image ''proj1'' ''p1'' ''PNG''
        (Some 1) =
     Ok ''proj1/pages/p1_v1.png''
       [([''srv'', ''uploads'', ''proj1'', ''pages'', ''p1_v1.png''],
           File (Encoded ''PNG'' None example_image)),
        ([''srv'', ''uploads'', ''proj1'', ''pages''], Dir),
        ([''srv'', ''uploads'', ''proj1''], Dir),
        ([], Dir), ([''srv''], Dir), ([''srv'', ''uploads''], Dir)]"
    by code_simp
  from returned_paths_inside_root [OF h, of example_cfg 1 0 example_fs example_image "Some 1"]
    h s
  show ?thesis by blast
qed

section \<open>Failures while making thumbnails\<close>

lemma resize_4000x1:
  "resize_image_for_thumbnail (Decoded ''RGB'' 4000 1 0) 1920 = Inl ValueError"
  by (simp add: resize_image_for_thumbnail_def pil_resize_def new_height_def mul_double_def
        trunc_double_def to_double_def round_half_even_def)

lemma get_pages_dir_example:
  "get_pages_dir example_cfg example_fs ''proj1'' =
     Ok (''/'', [''srv'', ''uploads'', ''proj1'', ''pages''])
       [([''srv'', ''uploads'', ''proj1'', ''pages''], Dir),
        ([''srv'', ''uploads'', ''proj1''], Dir),
        ([], Dir), ([''srv''], Dir), ([''srv'', ''uploads''], Dir)]"
  by code_simp

lemma get_pages_dir_blocked:
  "get_pages_dir example_cfg example_fs_blocked ''proj1'' =
     Raise FileExistsError example_fs_blocked"
  by code_simp

lemma save_cached_image_4000x1:
  "save_cached_image example_cfg example_fs (Decoded ''RGB'' 4000 1 0) ''proj1'' ''p1'' 1 85 1920 =
     Raise ValueError
       [([''srv'', ''uploads'', ''proj1'', ''pages''], Dir),
        ([''srv'', ''uploads'', ''proj1''], Dir),
        ([], Dir), ([''srv''], Dir), ([''srv'', ''uploads''], Dir)]"
  by (simp add: save_cached_image_def get_pages_dir_example resize_4000x1 Let_def
        del: One_nat_def)

text \<open>
  C9, as stated: neither \<open>save_user_template_thumbnail\<close> nor \<open>save_cached_image\<close> ever
  raises. This fails for \<open>save_cached_image\<close>, which has no handler: when a regular file
  is in the place of the project directory the error of \<open>mkdir\<close> comes out, and for a
  4000 x 1 image the error of \<open>Image.resize\<close> comes out (after the directories were made).
\<close>

theorem save_cached_image_raises_counterexample:
  "save_cached_image example_cfg example_fs_blocked example_image ''proj1'' ''p1'' 1 85 1920 =
     Raise FileExistsError example_fs_blocked \<and>
   save_cached_image example_cfg example_fs (Decoded ''RGB'' 4000 1 0) ''proj1'' ''p1'' 1 85 1920 =
     Raise ValueError
       [([''srv'', ''uploads'', ''proj1'', ''pages''], Dir),
        ([''srv'', ''uploads'', ''proj1''], Dir),
        ([], Dir), ([''srv''], Dir), ([''srv'', ''uploads''], Dir)]"
proof -
  have "save_cached_image example_cfg example_fs_blocked example_image ''proj1'' ''p1'' 1 85
          1920 = Raise FileExistsError example_fs_blocked"
    by (simp add: save_cached_image_def get_pages_dir_blocked)
  then show ?thesis using save_cached_image_4000x1 by (rule conjI)
qed

text \<open>
  C9, amended: \<open>save_user_template_thumbnail\<close> never raises: whenever a step of its body
  fails (opening, resizing, converting, making the directories, saving) it returns
  \<open>None\<close>. \<open>save_cached_image\<close> swallows nothing: a failure of making the pages
  directory, of resizing, of converting or of saving is raised to the caller, and the
  path is returned only when all four succeed.
\<close>

theorem thumbnail_failures:
  "(\<exists>r fs'. save_user_template_thumbnail cfg fs template_id original_path quality max_width =
             Ok r fs') \<and>
   (\<forall>e fs'. user_template_thumbnail_body cfg fs template_id original_path quality max_width =
             Raise e fs' \<longrightarrow>
      save_user_template_thumbnail cfg fs template_id original_path quality max_width =
        Ok None fs') \<and>
   (\<forall>e fs1. get_pages_dir cfg fs project_id = Raise e fs1 \<longrightarrow>
      save_cached_image cfg fs img project_id page_id v quality max_width = Raise e fs1) \<and>
   (\<forall>d fs1 e. get_pages_dir cfg fs project_id = Ok d fs1 \<and>
        resize_image_for_thumbnail img max_width = Inl e \<longrightarrow>
      save_cached_image cfg fs img project_id page_id v quality max_width = Raise e fs1) \<and>
   (\<forall>d fs1 resized e. get_pages_dir cfg fs project_id = Ok d fs1 \<and>
        resize_image_for_thumbnail img max_width = Inr resized \<and>
        convert_image_to_rgb (can_convert cfg) resized = Inl e \<longrightarrow>
      save_cached_image cfg fs img project_id page_id v quality max_width = Raise e fs1) \<and>
   (\<forall>d fs1 resized rgb e fs2. get_pages_dir cfg fs project_id = Ok d fs1 \<and>
        resize_image_for_thumbnail img max_width = Inr resized \<and>
        convert_image_to_rgb (can_convert cfg) resized = Inr rgb \<and>
        pil_save cfg fs1 rgb
          (joinpath d (path_name (parse_path (get_cached_image_path project_id page_id v))))
          (Some ''JPEG'') (Some quality) = Raise e fs2 \<longrightarrow>
      save_cached_image cfg fs img project_id page_id v quality max_width = Raise e fs2) \<and>
   (\<forall>r fs'. save_cached_image cfg fs img project_id page_id v quality max_width = Ok r fs' \<longrightarrow>
      (\<exists>d fs1 resized rgb. get_pages_dir cfg fs project_id = Ok d fs1 \<and>
         resize_image_for_thumbnail img max_width = Inr resized \<and>
         convert_image_to_rgb (can_convert cfg) resized = Inr rgb \<and>
         pil_save cfg fs1 rgb
           (joinpath d (path_name (parse_path (get_cached_image_path project_id page_id v))))
           (Some ''JPEG'') (Some quality) = Ok () fs'))"
proof -
  have a: "\<exists>r fs'. save_user_template_thumbnail cfg fs template_id original_path quality
             max_width = Ok r fs'"
    by (cases "user_template_thumbnail_body cfg fs template_id original_path quality max_width")
      (simp_all add: save_user_template_thumbnail_def)
  have b: "\<forall>e fs'. user_template_thumbnail_body cfg fs template_id original_path quality
             max_width = Raise e fs' \<longrightarrow>
      save_user_template_thumbnail cfg fs template_id original_path quality max_width =
        Ok None fs'"
    by (simp add: save_user_template_thumbnail_def)
  have c: "\<forall>e fs1. get_pages_dir cfg fs project_id = Raise e fs1 \<longrightarrow>
      save_cached_image cfg fs img project_id page_id v quality max_width = Raise e fs1"
    by (simp add: save_cached_image_def)
  have d: "\<forall>d fs1 e. get_pages_dir cfg fs project_id = Ok d fs1 \<and>
        resize_image_for_thumbnail img max_width = Inl e \<longrightarrow>
      save_cached_image cfg fs img project_id page_id v quality max_width = Raise e fs1"
    by (simp add: save_cached_image_def Let_def)
  have e: "\<forall>d fs1 resized e. get_pages_dir cfg fs project_id = Ok d fs1 \<and>
        resize_image_for_thumbnail img max_width = Inr resized \<and>
        convert_image_to_rgb (can_convert cfg) resized = Inl e \<longrightarrow>
      save_cached_image cfg fs img project_id page_id v quality max_width = Raise e fs1"
    by (simp add: save_cached_image_def Let_def)
  have f: "\<forall>d fs1 resized rgb e fs2. get_pages_dir cfg fs project_id = Ok d fs1 \<and>
        resize_image_for_thumbnail img max_width = Inr resized \<and>
        convert_image_to_rgb (can_convert cfg) resized = Inr rgb \<and>
        pil_save cfg fs1 rgb
          (joinpath d (path_name (parse_path (get_cached_image_path project_id page_id v))))
          (Some ''JPEG'') (Some quality) = Raise e fs2 \<longrightarrow>
      save_cached_image cfg fs img project_id page_id v quality max_width = Raise e fs2"
    by (simp add: save_cached_image_def Let_def)
  have g: "\<forall>r fs'. save_cached_image cfg fs img project_id page_id v quality max_width =
             Ok r fs' \<longrightarrow>
      (\<exists>d fs1 resized rgb. get_pages_dir cfg fs project_id = Ok d fs1 \<and>
         resize_image_for_thumbnail img max_width = Inr resized \<and>
         convert_image_to_rgb (can_convert cfg) resized = Inr rgb \<and>
         pil_save cfg fs1 rgb
           (joinpath d (path_name (parse_path (get_cached_image_path project_id page_id v))))
           (Some ''JPEG'') (Some quality) = Ok () fs')"
    by (auto simp: save_cached_image_def Let_def split: result.splits sum.splits)
  from a b c d e f g show ?thesis by blast
qed

theorem thumbnail_failures_witness:
  "user_template_thumbnail_body example_cfg example_fs ''t1'' [] 85 600 =
     Raise IsADirectoryError example_fs \<and>
   save_user_template_thumbnail example_cfg example_fs ''t1'' [] 85 600 = Ok None example_fs \<and>
   get_pages_dir example_cfg example_fs_blocked ''proj1'' =
     Raise FileExistsError example_fs_blocked \<and>
   save_cached_image example_cfg example_fs_blocked example_image ''proj1'' ''p1'' 1 85 1920 =
     Raise FileExistsError example_fs_blocked"
proof -
  have b: "user_template_thumbnail_body example_cfg example_fs ''t1'' [] 85 600 =
     Raise IsADirectoryError example_fs"
    by code_simp
  from thumbnail_failures [where cfg = example_cfg and fs = example_fs
      and template_id = "''t1''" and original_path = "[]" and quality = 85
      and max_width = 600]
    thumbnail_failures [where cfg = example_cfg and fs = example_fs_blocked
      and project_id = "''proj1''" and img = example_image and page_id = "''p1''" and v = 1
      and quality = 85 and max_width = 1920]
    b get_pages_dir_blocked
  show ?thesis by simp
qed

section \<open>Properties of the storage operations\<close>

subsection \<open>Locating and creating directories\<close>

lemma map_of_fs_put: "map_of (fs_put fs q n) = (map_of fs)(q \<mapsto> n)"
proof
  fix k
  have "map_of (filter (\<lambda>kv. fst kv \<noteq> q) fs) k = (if k = q then None else map_of fs k)"
    by (induction fs) auto
  then show "map_of (fs_put fs q n) k = ((map_of fs)(q \<mapsto> n)) k"
    by (simp add: fs_put_def)
qed

lemma map_of_fs_del: "map_of (fs_del fs q) = (map_of fs)(q := None)"
proof
  fix k
  have "map_of (filter (\<lambda>kv. fst kv \<noteq> q) fs) k = (if k = q then None else map_of fs k)"
    by (induction fs) auto
  then show "map_of (fs_del fs q) k = ((map_of fs)(q := None)) k"
    by (simp add: fs_del_def)
qed

lemma walk_append:
  "walk fs cur (a @ b) = (case walk fs cur a of Inl e \<Rightarrow> Inl e | Inr q \<Rightarrow> walk fs q b)"
  by (induction a arbitrary: cur) (auto split: option.splits node.splits)

lemma walk_cong: "map_of fs = map_of fs' \<Longrightarrow> walk fs cur ps = walk fs' cur ps"
  by (induction ps arbitrary: cur) (auto split: option.splits node.splits)

lemma walk_put:
  "walk fs cur ps = Inr r \<Longrightarrow> map_of fs q = None \<Longrightarrow> walk (fs_put fs q n) cur ps = Inr r"
proof (induction ps arbitrary: cur)
  case Nil
  then show ?case by simp
next
  case (Cons c cs)
  from Cons.prems(1) have d: "map_of fs cur = Some Dir" and w: "walk fs (step cur c) cs = Inr r"
    by (auto split: option.splits node.splits)
  from d Cons.prems(2) have "cur \<noteq> q" by auto
  with d have "map_of (fs_put fs q n) cur = Some Dir" by (simp add: map_of_fs_put)
  with Cons.IH [OF w Cons.prems(2)] show ?case by simp
qed

lemma walk_one: "map_of fs U = Some Dir \<Longrightarrow> walk fs U [a] = Inr (step U a)"
  by simp

lemma locate_under:
  assumes "root_at cfg fs U" and "\<forall>c \<in> set ps. CHR 0x00 \<notin> set c"
  shows "locate cfg fs (fst (upload_folder cfg), snd (upload_folder cfg) @ ps) = walk fs U ps"
proof -
  from assms(1) have l: "locate cfg fs (upload_folder cfg) = Inr U" by (simp add: root_at_def)
  then have n: "\<not> (\<exists>c \<in> set (snd (upload_folder cfg)). CHR 0x00 \<in> set c)"
    by (auto simp: locate_def split: if_splits)
  with l have w: "walk fs (if fst (upload_folder cfg) = [] then cwd cfg else [])
      (snd (upload_folder cfg)) = Inr U"
    by (simp add: locate_def)
  from n assms(2) show ?thesis
    by (auto simp: locate_def walk_append w)
qed

lemma mkdir_p_located:
  assumes "locate cfg fs p = Inr q"
  shows "mkdir_p cfg fs p =
     (case map_of fs q of
        None \<Rightarrow> Ok () (fs_put fs q Dir)
      | Some Dir \<Rightarrow> Ok () fs
      | Some (File c) \<Rightarrow> Raise FileExistsError fs)"
  using assms
  by (subst mkdir_p.simps)
     (auto simp: os_mkdir_def is_dir_def node_at_def split: option.splits node.splits)

lemma root_at_put:
  "root_at cfg fs U \<Longrightarrow> map_of fs q = None \<Longrightarrow> root_at cfg (fs_put fs q n) U"
  by (auto simp: root_at_def locate_def map_of_fs_put walk_put split: if_splits)

lemma entry_name_parts:
  "entry_name s \<Longrightarrow> clean_part s \<and> plain_part s \<and> s \<noteq> ''..'' \<and> CHR 0x00 \<notin> set s"
  by (simp add: entry_name_def plain_name_def clean_part_def plain_part_def)

lemma entry_name_sub: "entry_name ''pages''" "entry_name ''template''" "entry_name ''materials''"
  by (simp_all add: entry_name_def plain_name_def)

lemma ensure_dir_root:
  "root_at cfg fs U \<Longrightarrow> ensure_dir fs q = Inr fs' \<Longrightarrow> root_at cfg fs' U"
  by (auto simp: ensure_dir_def root_at_put split: option.splits node.splits)

lemma ensure_dir_is_dir: "ensure_dir fs q = Inr fs' \<Longrightarrow> map_of fs' q = Some Dir"
  by (auto simp: ensure_dir_def map_of_fs_put split: option.splits node.splits)

lemma mkdir_p_ensure:
  "locate cfg fs p = Inr q \<Longrightarrow>
   mkdir_p cfg fs p = (case ensure_dir fs q of Inl e \<Rightarrow> Raise e fs | Inr fs' \<Rightarrow> Ok () fs')"
  by (simp add: mkdir_p_located ensure_dir_def split: option.splits node.splits)

lemma locate_child:
  assumes "root_at cfg fs U" and "entry_name a"
  shows "locate cfg fs (fst (upload_folder cfg), snd (upload_folder cfg) @ [a]) = Inr (U @ [a])"
proof -
  from assms(2) have a: "CHR 0x00 \<notin> set a" "a \<noteq> ''..''" by (simp_all add: entry_name_parts)
  from assms(1) have d: "map_of fs U = Some Dir" by (simp add: root_at_def)
  from locate_under [OF assms(1), of "[a]"] a d show ?thesis by (simp add: step_def)
qed

lemma locate_grandchild:
  assumes "root_at cfg fs U" and "entry_name a" and "entry_name b"
    and "map_of fs (U @ [a]) = Some Dir"
  shows "locate cfg fs (fst (upload_folder cfg), snd (upload_folder cfg) @ [a, b]) =
           Inr (U @ [a, b])"
proof -
  from assms(2,3) have a: "CHR 0x00 \<notin> set a" "a \<noteq> ''..''" "CHR 0x00 \<notin> set b" "b \<noteq> ''..''"
    by (simp_all add: entry_name_parts)
  from assms(1) have d: "map_of fs U = Some Dir" by (simp add: root_at_def)
  from locate_under [OF assms(1), of "[a, b]"] a d assms(4) show ?thesis by (simp add: step_def)
qed

lemma get_project_dir_ensure:
  assumes "root_at cfg fs U" and "entry_name p"
  shows "get_project_dir cfg fs p =
     (case ensure_dir fs (U @ [p]) of
        Inl e \<Rightarrow> Raise e fs
      | Inr fs1 \<Rightarrow> Ok (fst (upload_folder cfg), snd (upload_folder cfg) @ [p]) fs1)"
proof -
  have j: "joinpath (upload_folder cfg) p = (fst (upload_folder cfg), snd (upload_folder cfg) @ [p])"
    using assms(2) by (simp add: joinpath_clean entry_name_parts)
  show ?thesis
    by (simp add: get_project_dir_def j mkdir_p_ensure [OF locate_child [OF assms]]
        split: sum.splits)
qed

lemma project_subdir_ensure:
  assumes "root_at cfg fs U" and "entry_name p" and "entry_name sub"
  shows "project_subdir cfg fs p sub =
     (case ensure_dir fs (U @ [p]) of
        Inl e \<Rightarrow> Raise e fs
      | Inr fs1 \<Rightarrow>
          (case ensure_dir fs1 (U @ [p, sub]) of
             Inl e \<Rightarrow> Raise e fs1
           | Inr fs2 \<Rightarrow> Ok (fst (upload_folder cfg), snd (upload_folder cfg) @ [p, sub]) fs2))"
proof (cases "ensure_dir fs (U @ [p])")
  case (Inl e)
  then show ?thesis
    by (simp add: project_subdir_def get_project_dir_ensure [OF assms(1,2)])
next
  case (Inr fs1)
  have r1: "root_at cfg fs1 U" using assms(1) Inr by (rule ensure_dir_root)
  have d1: "map_of fs1 (U @ [p]) = Some Dir" using Inr by (rule ensure_dir_is_dir)
  have j: "joinpath (fst (upload_folder cfg), snd (upload_folder cfg) @ [p]) sub =
      (fst (upload_folder cfg), snd (upload_folder cfg) @ [p, sub])"
    using assms(3) by (simp add: joinpath_clean entry_name_parts)
  show ?thesis
    by (simp add: project_subdir_def get_project_dir_ensure [OF assms(1,2)] Inr j
        mkdir_p_ensure [OF locate_grandchild [OF r1 assms(2,3) d1]] split: sum.splits)
qed

lemma absent_None: "absent fs d \<Longrightarrow> is_prefix d q \<Longrightarrow> map_of fs q = None"
  by (auto simp: absent_def map_of_eq_None_iff)

lemma is_prefix_append: "is_prefix d (d @ x)"
  by (simp add: is_prefix_def)

lemma project_subdir_absent:
  assumes "root_at cfg fs U" and "entry_name p" and "entry_name sub" and "absent fs (U @ [p])"
  shows "project_subdir cfg fs p sub =
     Ok (fst (upload_folder cfg), snd (upload_folder cfg) @ [p, sub])
       (fs_put (fs_put fs (U @ [p]) Dir) (U @ [p, sub]) Dir)"
proof -
  have a: "map_of fs (U @ [p]) = None"
    using absent_None [OF assms(4), of "U @ [p]"] by (simp add: is_prefix_def)
  have b: "map_of fs (U @ [p, sub]) = None"
    using absent_None [OF assms(4), of "U @ [p, sub]"] by (simp add: is_prefix_def)
  show ?thesis
    by (simp add: project_subdir_ensure [OF assms(1,2,3)] ensure_dir_def a b map_of_fs_put)
qed

lemma children_absent:
  assumes "absent fs (U @ [p])"
  shows "children (fs_put (fs_put fs (U @ [p]) Dir) (U @ [p, sub]) Dir) (U @ [p, sub]) = []"
proof -
  have "\<not> (q \<noteq> [] \<and> butlast q = U @ [p, sub])" if "q \<in> set (map fst fs)" for q
  proof
    assume h: "q \<noteq> [] \<and> butlast q = U @ [p, sub]"
    then have "q = (U @ [p]) @ [sub, last q]"
      by (metis append.assoc append_Cons append_Nil append_butlast_last_id)
    then have "is_prefix (U @ [p]) q" by (metis is_prefix_append)
    with assms that show False by (auto simp: absent_def)
  qed
  moreover have "butlast (U @ [p, sub]) \<noteq> U @ [p, sub]" "butlast (U @ [p]) \<noteq> U @ [p, sub]"
    by (simp_all add: butlast_append)
  ultimately show ?thesis
    by (auto simp: children_def fs_put_def filter_empty_conv)
qed

lemma delete_template_absent:
  assumes "root_at cfg fs U" and "entry_name project_id" and "absent fs (U @ [project_id])"
  shows "delete_template cfg fs project_id =
     Ok True (fs_put (fs_put fs (U @ [project_id]) Dir) (U @ [project_id, ''template'']) Dir)"
proof -
  let ?fs1 = "fs_put fs (U @ [project_id]) Dir"
  let ?fs2 = "fs_put ?fs1 (U @ [project_id, ''template'']) Dir"
  have a: "map_of fs (U @ [project_id]) = None"
    using absent_None [OF assms(3), of "U @ [project_id]"] by (simp add: is_prefix_def)
  have b: "map_of ?fs1 (U @ [project_id, ''template'']) = None"
    using absent_None [OF assms(3), of "U @ [project_id, ''template'']"]
    by (simp add: is_prefix_def map_of_fs_put)
  have r: "root_at cfg ?fs2 U"
    using assms(1) a b by (simp add: root_at_put)
  have d: "map_of ?fs2 (U @ [project_id]) = Some Dir" by (simp add: map_of_fs_put)
  have l: "locate cfg ?fs2 (fst (upload_folder cfg),
      snd (upload_folder cfg) @ [project_id, ''template'']) = Inr (U @ [project_id, ''template''])"
    using locate_grandchild [OF r assms(2) entry_name_sub(2) d] .
  show ?thesis
    by (simp add: delete_template_def get_template_dir_def
        project_subdir_absent [OF assms(1,2) entry_name_sub(2) assms(3)] l
        children_absent [OF assms(3)])
qed

lemma fnmatch_star: "fnmatch ''*'' n"
  by (induction n) auto

lemma fnmatch_literal:
  "CHR ''*'' \<notin> set g \<Longrightarrow> CHR ''?'' \<notin> set g \<Longrightarrow>
   fnmatch (g @ ''_*'') n = begins_with (g @ ''_'') n"
proof (induction g arbitrary: n)
  case Nil
  show ?case by (cases n) (auto simp: begins_with_def fnmatch_star)
next
  case (Cons c g)
  then have "fnmatch (g @ ''_*'') m = begins_with (g @ ''_'') m" for m by simp
  with Cons.prems show ?case by (cases n) (auto simp: begins_with_def)
qed

lemma double_star_literal: "CHR ''*'' \<notin> set g \<Longrightarrow> \<not> double_star (g @ ''_*'')"
proof (induction g)
  case Nil
  show ?case by simp
next
  case (Cons c g)
  then show ?case by (cases g) auto
qed

lemma glob_literal:
  assumes "literal_id g" and "locate cfg fs dir = Inr d" and "map_of fs d = Some Dir"
  shows "glob cfg fs dir (g @ ''_*'') =
           Inr (filter (\<lambda>q. begins_with (g @ ''_'') (last q)) (children fs d))"
proof -
  from assms(1) have s: "CHR ''*'' \<notin> set g" "CHR ''?'' \<notin> set g" "CHR ''/'' \<notin> set g"
      "CHR ''['' \<notin> set g"
    by (simp_all add: literal_id_def)
  have h: "hd (g @ ''_*'') \<noteq> CHR ''/''" using s(3) by (cases g) auto
  show ?thesis
    using s h assms(2,3)
    by (simp add: glob_def double_star_literal fnmatch_literal)
qed

lemma map_of_unlink_files:
  "map_of (unlink_files fs qs) k =
     (if k \<in> set qs \<and> (\<exists>c. map_of fs k = Some (File c)) then None else map_of fs k)"
proof (induction qs arbitrary: fs)
  case Nil
  show ?case by simp
next
  case (Cons q qs)
  show ?case
  proof (cases "\<exists>c. map_of fs q = Some (File c)")
    case True
    then obtain c where c: "map_of fs q = Some (File c)" by blast
    then show ?thesis
      using Cons.IH [of "fs_del fs q"] by (auto simp: map_of_fs_del)
  next
    case False
    then have "unlink_files fs (q # qs) = unlink_files fs qs"
      by (auto split: option.splits node.splits)
    with False Cons.IH [of fs] show ?thesis by auto
  qed
qed

lemma delete_page_image_absent:
  assumes "root_at cfg fs U" and "entry_name project_id" and "absent fs (U @ [project_id])"
    and "literal_id page_id"
  shows "delete_page_image cfg fs project_id page_id =
     Ok True (fs_put (fs_put fs (U @ [project_id]) Dir) (U @ [project_id, ''pages'']) Dir)"
proof -
  let ?fs1 = "fs_put fs (U @ [project_id]) Dir"
  let ?fs2 = "fs_put ?fs1 (U @ [project_id, ''pages'']) Dir"
  have a: "map_of fs (U @ [project_id]) = None"
    using absent_None [OF assms(3), of "U @ [project_id]"] by (simp add: is_prefix_def)
  have b: "map_of ?fs1 (U @ [project_id, ''pages'']) = None"
    using absent_None [OF assms(3), of "U @ [project_id, ''pages'']"]
    by (simp add: is_prefix_def map_of_fs_put)
  have r: "root_at cfg ?fs2 U"
    using assms(1) a b by (simp add: root_at_put)
  have d: "map_of ?fs2 (U @ [project_id]) = Some Dir" by (simp add: map_of_fs_put)
  have l: "locate cfg ?fs2 (fst (upload_folder cfg),
      snd (upload_folder cfg) @ [project_id, ''pages'']) = Inr (U @ [project_id, ''pages''])"
    using locate_grandchild [OF r assms(2) entry_name_sub(1) d] .
  have g: "glob cfg ?fs2 (fst (upload_folder cfg), snd (upload_folder cfg) @ [project_id, ''pages''])
      (page_id @ ''_*'') = Inr []"
    using glob_literal [OF assms(4) l] by (simp add: map_of_fs_put children_absent [OF assms(3)])
  show ?thesis
    by (simp add: delete_page_image_def get_pages_dir_def
        project_subdir_absent [OF assms(1,2) entry_name_sub(1) assms(3)] g)
qed

lemma delete_page_image_present:
  assumes "root_at cfg fs U" and "entry_name project_id" and "literal_id page_id"
    and "map_of fs (U @ [project_id]) = Some Dir"
    and "map_of fs (U @ [project_id, ''pages'']) = Some Dir"
  shows "delete_page_image cfg fs project_id page_id =
     Ok True (unlink_files fs
       (filter (\<lambda>q. begins_with (page_id @ ''_'') (last q))
          (children fs (U @ [project_id, ''pages'']))))"
proof -
  have l: "locate cfg fs (fst (upload_folder cfg),
      snd (upload_folder cfg) @ [project_id, ''pages'']) = Inr (U @ [project_id, ''pages''])"
    using locate_grandchild [OF assms(1,2) entry_name_sub(1) assms(4)] .
  show ?thesis
    by (simp add: delete_page_image_def get_pages_dir_def
        project_subdir_ensure [OF assms(1,2) entry_name_sub(1)] ensure_dir_def assms(4,5)
        glob_literal [OF assms(3) l assms(5)])
qed

lemma example_root:
  "root_at example_cfg example_fs [''srv'', ''uploads'']"
  "root_at example_cfg example_fs_pages [''srv'', ''uploads'']"
  by code_simp+

lemma example_names:
  "entry_name ''proj1''" "literal_id ''p1''" "literal_id ''a''" "literal_id ''b''"
  by (simp_all add: entry_name_def plain_name_def literal_id_def)

lemma example_absent: "absent example_fs ([''srv'', ''uploads''] @ [''proj1''])"
  by (simp add: absent_def example_fs_def is_prefix_def)

subsection \<open>Deleting in a project that does not exist\<close>

text \<open>
  C10, as stated: on an absent project \<open>delete_template\<close> and \<open>delete_page_image\<close>
  create the directories and return true. For \<open>delete_page_image\<close> this fails when
  the page id begins with a slash: the directories are created, and then \<open>glob\<close>
  refuses the pattern \<open>/x_*\<close> and raises.
\<close>

theorem delete_raises_counterexample:
  "absent example_fs [''srv'', ''uploads'', ''proj1''] \<and>
   delete_page_image example_cfg example_fs ''proj1'' ''/x'' =
     Raise NotImplementedError
       [([''srv'', ''uploads'', ''proj1'', ''pages''], Dir),
        ([''srv'', ''uploads'', ''proj1''], Dir),
        ([], Dir), ([''srv''], Dir), ([''srv'', ''uploads''], Dir)]"
  by code_simp

text \<open>
  C10, amended: with the upload folder in place, for a project id that names one entry
  and under which nothing exists, \<open>delete_template\<close> creates the project directory and
  its \<open>template\<close> directory and returns true, and \<open>delete_page_image\<close>, for a page
  id without a slash and without the glob characters, creates the project directory and
  its \<open>pages\<close> directory and returns true; nothing else changes.
\<close>

theorem delete_creates_directories:
  assumes "root_at cfg fs U" and "entry_name project_id" and "absent fs (U @ [project_id])"
    and "literal_id page_id"
  shows "delete_template cfg fs project_id =
           Ok True (fs_put (fs_put fs (U @ [project_id]) Dir)
                      (U @ [project_id, ''template'']) Dir) \<and>
         delete_page_image cfg fs project_id page_id =
           Ok True (fs_put (fs_put fs (U @ [project_id]) Dir)
                      (U @ [project_id, ''pages'']) Dir) \<and>
         map_of fs (U @ [project_id]) = None \<and>
         map_of (fs_put (fs_put fs (U @ [project_id]) Dir) (U @ [project_id, ''template'']) Dir)
           (U @ [project_id]) = Some Dir \<and>
         map_of (fs_put (fs_put fs (U @ [project_id]) Dir) (U @ [project_id, ''template'']) Dir)
           (U @ [project_id, ''template'']) = Some Dir \<and>
         map_of (fs_put (fs_put fs (U @ [project_id]) Dir) (U @ [project_id, ''pages'']) Dir)
           (U @ [project_id]) = Some Dir \<and>
         map_of (fs_put (fs_put fs (U @ [project_id]) Dir) (U @ [project_id, ''pages'']) Dir)
           (U @ [project_id, ''pages'']) = Some Dir"
  using delete_template_absent [OF assms(1,2,3)] delete_page_image_absent [OF assms]
    absent_None [OF assms(3), of "U @ [project_id]"]
  by (simp add: map_of_fs_put is_prefix_def)

theorem delete_creates_directories_witness:
  "root_at example_cfg example_fs [''srv'', ''uploads''] \<and> entry_name ''proj1'' \<and>
   absent example_fs ([''srv'', ''uploads''] @ [''proj1'']) \<and> literal_id ''p1'' \<and>
   delete_template example_cfg example_fs ''proj1'' =
     Ok True
       [([''srv'', ''uploads'', ''proj1'', ''template''], Dir),
        ([''srv'', ''uploads'', ''proj1''], Dir),
        ([], Dir), ([''srv''], Dir), ([''srv'', ''uploads''], Dir)] \<and>
   delete_page_image example_cfg example_fs ''proj1'' ''p1'' =
     Ok True
       [([''srv'', ''uploads'', ''proj1'', ''pages''], Dir),
        ([''srv'', ''uploads'', ''proj1''], Dir),
        ([], Dir), ([''srv''], Dir), ([''srv'', ''uploads''], Dir)]"
  using delete_creates_directories [OF example_root(1) example_names(1) example_absent
      example_names(2)]
    example_root(1) example_names(1,2) example_absent
  by (simp add: fs_put_def example_fs_def)


end
